theory Spec2Isabelle
  imports Main "HOL-Library.Sublist" "HOL-Library.Multiset"
begin

section \<open>Python values used by the four engines\<close>

text \<open>
  The engines of \<^verbatim>\<open>super_dev/design\<close> work on strings, lists and small dictionaries.
  Strings are modelled as \<open>string\<close> (text outside ASCII by its UTF-8 bytes); the case
  mapping of \<^verbatim>\<open>str.lower\<close> is the one of the ASCII letters.
  Exceptions are values of \<open>error\<close>; a function that can raise returns \<open>error + 'a\<close>.
\<close>

datatype error =
  AttributeError | KeyError | NameError | SyntaxError | ValueError | UnicodeDecodeError

definition lower_char :: "char \<Rightarrow> char" where
  "lower_char c =
     (let n = (of_char c :: nat) in if 65 \<le> n \<and> n \<le> 90 then char_of (n + 32) else c)"

definition upper_char :: "char \<Rightarrow> char" where
  "upper_char c =
     (let n = (of_char c :: nat) in if 97 \<le> n \<and> n \<le> 122 then char_of (n - 32) else c)"

definition is_alpha :: "char \<Rightarrow> bool" where
  "is_alpha c =
     (let n = (of_char c :: nat) in (65 \<le> n \<and> n \<le> 90) \<or> (97 \<le> n \<and> n \<le> 122))"

text \<open>\<^verbatim>\<open>s.lower()\<close>\<close>

definition lower :: "string \<Rightarrow> string" where
  "lower s = map lower_char s"

text \<open>\<^verbatim>\<open>sub in s\<close> on strings: \<open>sub\<close> occurs in \<open>s\<close> as a contiguous run.\<close>

fun str_in :: "string \<Rightarrow> string \<Rightarrow> bool" where
  "str_in sub [] = (sub = [])"
| "str_in sub (c # cs) = (prefix sub (c # cs) \<or> str_in sub cs)"

text \<open>The characters \<^verbatim>\<open>str.split()\<close> and \<^verbatim>\<open>str.strip()\<close> treat as white space.\<close>

definition is_space :: "char \<Rightarrow> bool" where
  "is_space c = (let n = (of_char c :: nat) in (9 \<le> n \<and> n \<le> 13) \<or> (28 \<le> n \<and> n \<le> 32))"

text \<open>\<^verbatim>\<open>s.split()\<close>: the maximal runs of characters that are not white space.\<close>

fun split_ws_aux :: "string \<Rightarrow> string \<Rightarrow> string list" where
  "split_ws_aux cur [] = (if cur = [] then [] else [cur])"
| "split_ws_aux cur (c # cs) =
     (if is_space c then (if cur = [] then split_ws_aux [] cs else cur # split_ws_aux [] cs)
      else split_ws_aux (cur @ [c]) cs)"

definition split_ws :: "string \<Rightarrow> string list" where
  "split_ws s = split_ws_aux [] s"

text \<open>\<^verbatim>\<open>s.split(sep)\<close> for a separator of one character: always at least one field.\<close>

fun split_on_aux :: "char \<Rightarrow> string \<Rightarrow> string \<Rightarrow> string list" where
  "split_on_aux sep cur [] = [cur]"
| "split_on_aux sep cur (c # cs) =
     (if c = sep then cur # split_on_aux sep [] cs else split_on_aux sep (cur @ [c]) cs)"

definition split_on :: "char \<Rightarrow> string \<Rightarrow> string list" where
  "split_on sep s = split_on_aux sep [] s"

text \<open>\<^verbatim>\<open>s.strip()\<close>\<close>

definition strip :: "string \<Rightarrow> string" where
  "strip s = rev (dropWhile is_space (rev (dropWhile is_space s)))"

text \<open>
  \<^verbatim>\<open>xs[:n]\<close>: the first \<open>n\<close> elements, and for a negative \<open>n\<close> all but the last \<open>-n\<close>.
\<close>

definition slice_to :: "int \<Rightarrow> 'a list \<Rightarrow> 'a list" where
  "slice_to n xs = (if 0 \<le> n then take (nat n) xs else take (length xs - nat (- n)) xs)"

text \<open>The truth value of an \<^verbatim>\<open>Optional[str]\<close>: \<^verbatim>\<open>None\<close> and the empty string are false.\<close>

fun truthy :: "string option \<Rightarrow> bool" where
  "truthy None = False"
| "truthy (Some s) = (s \<noteq> [])"

text \<open>
  \<^verbatim>\<open>xs.sort(key=k, reverse=True)\<close>: Python's sort is stable, also with \<^verbatim>\<open>reverse=True\<close>
  (elements with equal keys keep their order), so the result is the stable ascending sort
  on the negated key.
\<close>

definition sort_desc :: "('a \<Rightarrow> int) \<Rightarrow> 'a list \<Rightarrow> 'a list" where
  "sort_desc k xs = sort_key (\<lambda>x. - k x) xs"

text \<open>
  \<^verbatim>\<open>xs.sort(key=k)\<close> with a key function that may raise: the keys of all elements are
  computed first (none for an empty list), then the list is sorted stably on them.
\<close>

fun eval_keys :: "('a \<Rightarrow> error + int) \<Rightarrow> 'a list \<Rightarrow> error + int list" where
  "eval_keys k [] = Inr []"
| "eval_keys k (x # xs) =
     (case k x of Inl e \<Rightarrow> Inl e
      | Inr v \<Rightarrow> (case eval_keys k xs of Inl e \<Rightarrow> Inl e | Inr vs \<Rightarrow> Inr (v # vs)))"

definition sort_by :: "('a \<Rightarrow> error + int) \<Rightarrow> 'a list \<Rightarrow> error + 'a list" where
  "sort_by k xs =
     (case eval_keys k xs of Inl e \<Rightarrow> Inl e
      | Inr vs \<Rightarrow> Inr (map snd (sort_key fst (zip vs xs))))"

text \<open>Sequencing of computations that may raise.\<close>

definition bind_err :: "error + 'a \<Rightarrow> ('a \<Rightarrow> error + 'b) \<Rightarrow> error + 'b" where
  "bind_err m f = (case m of Inl e \<Rightarrow> Inl e | Inr x \<Rightarrow> f x)"

text \<open>\<^verbatim>\<open>a or b\<close> on optional objects (an object of a dataclass is always true).\<close>

definition or_else :: "'a option \<Rightarrow> 'a option \<Rightarrow> 'a option" where
  "or_else a b = (case a of Some x \<Rightarrow> Some x | None \<Rightarrow> b)"

text \<open>
  A dictionary whose values are lists, in insertion order of its keys.
  \<open>dict_append d k v\<close> is \<^verbatim>\<open>d[k].append(v)\<close> where a missing key starts from the empty
  list; \<open>dict_set d k vs\<close> is \<^verbatim>\<open>d[k] = vs\<close>.
\<close>

fun dict_append :: "('k \<times> 'v list) list \<Rightarrow> 'k \<Rightarrow> 'v \<Rightarrow> ('k \<times> 'v list) list" where
  "dict_append [] k v = [(k, [v])]"
| "dict_append ((k', vs) # d) k v =
     (if k' = k then (k', vs @ [v]) # d else (k', vs) # dict_append d k v)"

fun dict_set :: "('k \<times> 'v) list \<Rightarrow> 'k \<Rightarrow> 'v \<Rightarrow> ('k \<times> 'v) list" where
  "dict_set [] k vs = [(k, vs)]"
| "dict_set ((k', vs') # d) k vs =
     (if k' = k then (k', vs) # d else (k', vs') # dict_set d k vs)"

text \<open>
  A row of \<^verbatim>\<open>csv.DictReader\<close>: a dictionary with one entry for every name of the
  header line, whose value is the cell of the row under that name, or \<^verbatim>\<open>None\<close> when
  the row has fewer cells than the header has names. \<open>row k = None\<close> says that \<open>k\<close> is
  no name of the header, \<open>row k = Some None\<close> that the row has no cell for it.
  \<open>dict_row\<close> builds the row from the header names and the cells of a line (the last
  of equal names wins; cells beyond the header are kept under the key \<^verbatim>\<open>None\<close>,
  which the loaders never read).
\<close>

type_synonym row = "string \<rightharpoonup> string option"

definition dict_row :: "string list \<Rightarrow> string list \<Rightarrow> row" where
  "dict_row fieldnames cells =
     map_of (rev (zip fieldnames
                    (map Some cells @ replicate (length fieldnames - length cells) None)))"

text \<open>\<^verbatim>\<open>row[k]\<close>, \<^verbatim>\<open>row.get(k, default)\<close> and \<^verbatim>\<open>row.get(k)\<close>.\<close>

definition row_item :: "row \<Rightarrow> string \<Rightarrow> error + string option" where
  "row_item row k = (case row k of None \<Rightarrow> Inl KeyError | Some cell \<Rightarrow> Inr cell)"

definition row_get :: "row \<Rightarrow> string \<Rightarrow> string \<Rightarrow> string option" where
  "row_get row k dflt = (case row k of None \<Rightarrow> Some dflt | Some cell \<Rightarrow> cell)"

definition row_get_none :: "row \<Rightarrow> string \<Rightarrow> string option" where
  "row_get_none row k = (case row k of None \<Rightarrow> None | Some cell \<Rightarrow> cell)"

text \<open>
  A string method called on a cell (\<^verbatim>\<open>.split\<close>, \<^verbatim>\<open>.lower\<close>): \<^verbatim>\<open>None\<close> has none.
\<close>

definition str_method :: "string option \<Rightarrow> error + string" where
  "str_method cell = (case cell of None \<Rightarrow> Inl AttributeError | Some s \<Rightarrow> Inr s)"

text \<open>
  An enumeration called on a cell, \<^verbatim>\<open>UXDomain(row["domain"])\<close>: \<^verbatim>\<open>None\<close> is the value
  of no member.
\<close>

definition enum_of_cell :: "(string \<Rightarrow> error + 'a) \<Rightarrow> string option \<Rightarrow> error + 'a" where
  "enum_of_cell of_value cell = (case cell of None \<Rightarrow> Inl ValueError | Some v \<Rightarrow> of_value v)"

text \<open>
  What a loader appends to its store: an object of the dataclass. The fields declared
  \<^verbatim>\<open>str\<close> are not checked, so an object built from a row with missing cells holds
  \<^verbatim>\<open>None\<close> in them; \<open>With_None\<close> stands for such an object, \<open>Typed r\<close> for one
  whose fields are as declared.
\<close>

datatype 'a loaded = Typed 'a | With_None

text \<open>
  The loading loop the engines share. The reader yields the rows one by one, and may
  raise instead of yielding (a file that is not UTF-8, a line \<^verbatim>\<open>csv\<close> rejects):
  \<^verbatim>\<open>for row in reader\<close> stands outside the \<^verbatim>\<open>try\<close>, so that exception ends the
  loading and reaches the caller. Each row is parsed inside the \<^verbatim>\<open>try\<close>; a parsed record
  is appended to the store, and for a row whose parse raises, a warning is printed
  (recorded here by the exception) and the loop goes on.
\<close>

fun load_rows ::
  "(row \<Rightarrow> error + 'a) \<Rightarrow> (error + row) list \<Rightarrow> 'a list \<times> error list
     \<Rightarrow> error + 'a list \<times> error list" where
  "load_rows parse [] (store, warnings) = Inr (store, warnings)"
| "load_rows parse (Inl e # reader) (store, warnings) = Inl e"
| "load_rows parse (Inr row # reader) (store, warnings) =
     (case parse row of
        Inr record \<Rightarrow> load_rows parse reader (store @ [record], warnings)
      | Inl e \<Rightarrow> load_rows parse reader (store, warnings @ [e]))"

section \<open>UX guidelines (ux_guide.py)\<close>

datatype UXDomain =
  ANIMATION | A11Y | PERFORMANCE | RESPONSIVE | FORMS | NAVIGATION | LOADING | ERROR
  | DARK_MODE | I18N

text \<open>The members of the enumeration by name, with their values.\<close>

definition UXDomain_members :: "(string \<times> UXDomain \<times> string) list" where
  "UXDomain_members =
     [(''ANIMATION'', ANIMATION, ''Animation''), (''A11Y'', A11Y, ''A11y''),
      (''PERFORMANCE'', PERFORMANCE, ''Performance''), (''RESPONSIVE'', RESPONSIVE, ''Responsive''),
      (''FORMS'', FORMS, ''Forms''), (''NAVIGATION'', NAVIGATION, ''Navigation''),
      (''LOADING'', LOADING, ''Loading''), (''ERROR'', ERROR, ''Error''),
      (''DARK_MODE'', DARK_MODE, ''Dark Mode''), (''I18N'', I18N, ''I18n'')]"

text \<open>\<^verbatim>\<open>d.value\<close>\<close>

fun UXDomain_value :: "UXDomain \<Rightarrow> string" where
  "UXDomain_value ANIMATION = ''Animation''"
| "UXDomain_value A11Y = ''A11y''"
| "UXDomain_value PERFORMANCE = ''Performance''"
| "UXDomain_value RESPONSIVE = ''Responsive''"
| "UXDomain_value FORMS = ''Forms''"
| "UXDomain_value NAVIGATION = ''Navigation''"
| "UXDomain_value LOADING = ''Loading''"
| "UXDomain_value ERROR = ''Error''"
| "UXDomain_value DARK_MODE = ''Dark Mode''"
| "UXDomain_value I18N = ''I18n''"

text \<open>
  \<^verbatim>\<open>UXDomain.NAME\<close>: the member of that name; a name that is no member raises
  \<^verbatim>\<open>AttributeError\<close>.
\<close>

definition UXDomain_attr :: "string \<Rightarrow> error + UXDomain" where
  "UXDomain_attr name =
     (case map_of UXDomain_members name of None \<Rightarrow> Inl AttributeError | Some (d, v) \<Rightarrow> Inr d)"

text \<open>\<^verbatim>\<open>UXDomain(v)\<close>: the member with that value; \<^verbatim>\<open>ValueError\<close> if there is none.\<close>

definition UXDomain_of_value :: "string \<Rightarrow> error + UXDomain" where
  "UXDomain_of_value v =
     (case find (\<lambda>(n, d, w). w = v) UXDomain_members of
        None \<Rightarrow> Inl ValueError | Some (n, d, w) \<Rightarrow> Inr d)"

record UXGuideline =
  ux_domain :: UXDomain
  ux_topic :: string
  ux_best_practice :: string
  ux_anti_pattern :: string
  ux_example :: string
  ux_impact :: string
  ux_complexity :: string

record UXRecommendation =
  r_guideline :: UXGuideline
  r_priority :: string
  r_implementation_effort :: string
  r_user_impact :: string
  r_resources :: "string list"

text \<open>The engine: its store is the list \<^verbatim>\<open>self.guidelines\<close>.\<close>

record UXGuideEngine =
  guidelines :: "UXGuideline list"

definition get_default_guidelines :: "UXGuideline list" where
  "get_default_guidelines =
     [\<lparr>ux_domain = ANIMATION, ux_topic = ''Loading'',
       ux_best_practice = ''Use skeleton screens for content loading'',
       ux_anti_pattern = ''Use spinners for all loading states'',
       ux_example = ''Skeleton while profile data loads'',
       ux_impact = ''Reduced perceived wait time'', ux_complexity = ''medium''\<rparr>,
      \<lparr>ux_domain = A11Y, ux_topic = ''Color'',
       ux_best_practice = ''Use 4.5:1 contrast ratio for text'',
       ux_anti_pattern = ''Light gray text on white background'',
       ux_example = ''Dark text on light background'',
       ux_impact = ''Readable by all users'', ux_complexity = ''low''\<rparr>,
      \<lparr>ux_domain = PERFORMANCE, ux_topic = ''Images'',
       ux_best_practice = ''Use WebP format with fallbacks'',
       ux_anti_pattern = ''Unoptimized 5MB PNGs'',
       ux_example = ''WebP with JPEG fallback'',
       ux_impact = ''Faster page load'', ux_complexity = ''low''\<rparr>]"

text \<open>
  \<^verbatim>\<open>_determine_priority\<close>. The first test reads \<^verbatim>\<open>UXDomain.A11y\<close>; the second
  \<^verbatim>\<open>UXDomain.PERFORMANCE\<close>.
\<close>

definition determine_priority :: "UXGuideline \<Rightarrow> error + string" where
  "determine_priority g =
     (case UXDomain_attr ''A11y'' of
        Inl e \<Rightarrow> Inl e
      | Inr a \<Rightarrow>
          if ux_domain g = a then Inr ''critical''
          else (case UXDomain_attr ''PERFORMANCE'' of
                  Inl e \<Rightarrow> Inl e
                | Inr p \<Rightarrow>
                    if ux_domain g = p then Inr ''high''
                    else if ux_complexity g = ''low'' then Inr ''high''
                    else Inr ''medium''))"

text \<open>\<^verbatim>\<open>_determine_user_impact\<close>\<close>

definition determine_user_impact :: "UXGuideline \<Rightarrow> string" where
  "determine_user_impact g =
     (let impact_lower = lower (ux_impact g) in
      if list_ex (\<lambda>word. str_in word impact_lower)
           [''all users'', ''everyone'', ''critical'', ''essential''] then ''high''
      else if list_ex (\<lambda>word. str_in word impact_lower)
           [''some users'', ''improved'', ''better''] then ''medium''
      else ''low'')"

text \<open>\<^verbatim>\<open>_get_resources\<close>: a dictionary keyed by domain, the empty list for other domains.\<close>

definition domain_resources :: "(UXDomain \<times> string list) list" where
  "domain_resources =
     [(A11Y, [''WCAG 2.1 Guidelines: https://www.w3.org/WAI/WCAG21/quickref/'',
              ''WebAIM Contrast Checker: https://webaim.org/resources/contrastchecker/'']),
      (PERFORMANCE, [''Web.dev Performance: https://web.dev/performance/'',
              ''Google Lighthouse: https://developers.google.com/web/tools/lighthouse'']),
      (RESPONSIVE, [''MDN Responsive Design: https://developer.mozilla.org/en-US/docs/Learn/CSS/CSS_layout/Responsive_Design'']),
      (ANIMATION, [''Motion Design Guidelines: https://material.io/design/motion''])]"

definition get_resources :: "UXGuideline \<Rightarrow> string list" where
  "get_resources g = (case map_of domain_resources (ux_domain g) of None \<Rightarrow> [] | Some rs \<Rightarrow> rs)"

text \<open>The score \<^verbatim>\<open>search\<close> gives a guideline for the lower-cased query.\<close>

definition ux_score :: "string \<Rightarrow> UXGuideline \<Rightarrow> int" where
  "ux_score query_lower g =
     (let score = 0;
          score = (if str_in query_lower (lower (ux_topic g)) then score + 10 else score);
          score = (if str_in query_lower (lower (ux_best_practice g)) then score + 8 else score);
          score = (if str_in query_lower (lower (ux_anti_pattern g)) then score + 8 else score);
          words = split_ws query_lower
      in foldl (\<lambda>score word. if str_in word (lower (ux_impact g)) then score + 3 else score)
           score words)"

text \<open>The domain filter of \<^verbatim>\<open>search\<close>: true when the guideline is skipped.\<close>

definition ux_filtered_out :: "string option \<Rightarrow> UXGuideline \<Rightarrow> bool" where
  "ux_filtered_out domain g =
     (case domain of None \<Rightarrow> False
      | Some d \<Rightarrow> d \<noteq> [] \<and> lower (UXDomain_value (ux_domain g)) \<noteq> lower d)"

type_synonym scored_guideline = "UXGuideline \<times> int \<times> string \<times> string \<times> string"

text \<open>The first loop of \<^verbatim>\<open>search\<close>, with \<^verbatim>\<open>scored_guidelines\<close> as accumulator.\<close>

fun ux_search_loop ::
  "string \<Rightarrow> string option \<Rightarrow> UXGuideline list \<Rightarrow> scored_guideline list
     \<Rightarrow> error + scored_guideline list" where
  "ux_search_loop query_lower domain [] scored = Inr scored"
| "ux_search_loop query_lower domain (g # gs) scored =
     (if ux_filtered_out domain g then ux_search_loop query_lower domain gs scored
      else
        let score = ux_score query_lower g in
        if score > 0 then
          (case determine_priority g of
             Inl e \<Rightarrow> Inl e
           | Inr priority \<Rightarrow>
               let effort = ux_complexity g;
                   user_impact = determine_user_impact g
               in ux_search_loop query_lower domain gs
                    (scored @ [(g, score, priority, effort, user_impact)]))
        else ux_search_loop query_lower domain gs scored)"

definition ux_recommendation :: "scored_guideline \<Rightarrow> UXRecommendation" where
  "ux_recommendation x =
     (case x of (g, score, priority, effort, user_impact) \<Rightarrow>
        \<lparr>r_guideline = g, r_priority = priority, r_implementation_effort = effort,
         r_user_impact = user_impact, r_resources = get_resources g\<rparr>)"

text \<open>\<^verbatim>\<open>UXGuideEngine.search\<close> on the store \<open>gs\<close>.\<close>

definition ux_search ::
  "UXGuideline list \<Rightarrow> string \<Rightarrow> string option \<Rightarrow> int \<Rightarrow> error + UXRecommendation list" where
  "ux_search gs query domain max_results =
     (case ux_search_loop (lower query) domain gs [] of
        Inl e \<Rightarrow> Inl e
      | Inr scored \<Rightarrow>
          Inr (map ux_recommendation
                 (slice_to max_results (sort_desc (\<lambda>x. fst (snd x)) scored))))"

definition UXGuideEngine_search ::
  "UXGuideEngine \<Rightarrow> string \<Rightarrow> string option \<Rightarrow> int
     \<Rightarrow> (error + UXRecommendation list) \<times> UXGuideEngine" where
  "UXGuideEngine_search self query domain max_results =
     (ux_search (guidelines self) query domain max_results, self)"

text \<open>The first loop of \<^verbatim>\<open>get_quick_wins\<close>, with \<^verbatim>\<open>quick_wins\<close> as accumulator.\<close>

fun quick_wins_loop :: "UXGuideline list \<Rightarrow> UXRecommendation list \<Rightarrow> UXRecommendation list" where
  "quick_wins_loop [] quick_wins = quick_wins"
| "quick_wins_loop (g # gs) quick_wins =
     (if ux_complexity g = ''low'' then
        let user_impact = determine_user_impact g in
        if user_impact \<in> set [''high'', ''medium''] then
          quick_wins_loop gs
            (quick_wins @
               [\<lparr>r_guideline = g, r_priority = ''high'', r_implementation_effort = ''low'',
                 r_user_impact = user_impact, r_resources = get_resources g\<rparr>])
        else quick_wins_loop gs quick_wins
      else quick_wins_loop gs quick_wins)"

text \<open>The second loop: grouping by domain.\<close>

fun group_loop ::
  "UXRecommendation list \<Rightarrow> (UXDomain \<times> UXRecommendation list) list
     \<Rightarrow> (UXDomain \<times> UXRecommendation list) list" where
  "group_loop [] domain_groups = domain_groups"
| "group_loop (rec # recs) domain_groups =
     group_loop recs (dict_append domain_groups (ux_domain (r_guideline rec)) rec)"

text \<open>
  The \<^verbatim>\<open>while\<close> loop: \<^verbatim>\<open>domains.pop(0)\<close>, then
  \<^verbatim>\<open>domain_groups[domain].pop(0)\<close> if that group is not empty.
\<close>

fun draw_loop ::
  "int \<Rightarrow> UXDomain list \<Rightarrow> (UXDomain \<times> UXRecommendation list) list
     \<Rightarrow> UXRecommendation list \<Rightarrow> UXRecommendation list" where
  "draw_loop max_results [] domain_groups result = result"
| "draw_loop max_results (domain # domains) domain_groups result =
     (if int (length result) < max_results then
        (case map_of domain_groups domain of
           None \<Rightarrow> draw_loop max_results domains (dict_set domain_groups domain []) result
         | Some [] \<Rightarrow> draw_loop max_results domains domain_groups result
         | Some (rec # recs) \<Rightarrow>
             draw_loop max_results domains (dict_set domain_groups domain recs) (result @ [rec]))
      else result)"

text \<open>
  \<^verbatim>\<open>UXGuideEngine.get_quick_wins\<close>. The outcome of \<^verbatim>\<open>random.shuffle(domains)\<close> is the
  parameter \<open>shuffle\<close>: some rearrangement of the list it is given.
\<close>

definition get_quick_wins ::
  "UXGuideline list \<Rightarrow> int \<Rightarrow> (UXDomain list \<Rightarrow> UXDomain list) \<Rightarrow> UXRecommendation list" where
  "get_quick_wins gs max_results shuffle =
     (let quick_wins = quick_wins_loop gs [];
          domain_groups = group_loop quick_wins [];
          domains = shuffle (map fst domain_groups)
      in draw_loop max_results domains domain_groups [])"

definition UXGuideEngine_get_quick_wins ::
  "UXGuideEngine \<Rightarrow> int \<Rightarrow> (UXDomain list \<Rightarrow> UXDomain list)
     \<Rightarrow> UXRecommendation list \<times> UXGuideEngine" where
  "UXGuideEngine_get_quick_wins self max_results shuffle =
     (get_quick_wins (guidelines self) max_results shuffle, self)"

text \<open>\<^verbatim>\<open>get_checklist\<close>: the check list grouped by domain value.\<close>

fun checklist_loop ::
  "string list option \<Rightarrow> UXGuideline list \<Rightarrow> (string \<times> string list) list
     \<Rightarrow> (string \<times> string list) list" where
  "checklist_loop domains [] checklist = checklist"
| "checklist_loop domains (g # gs) checklist =
     (let domain = UXDomain_value (ux_domain g) in
      if (case domains of None \<Rightarrow> False | Some ds \<Rightarrow> ds \<noteq> [] \<and> domain \<notin> set ds)
      then checklist_loop domains gs checklist
      else checklist_loop domains gs
             (dict_append checklist domain (''[ ] '' @ ux_best_practice g)))"

definition UXGuideEngine_get_checklist ::
  "UXGuideEngine \<Rightarrow> string list option \<Rightarrow> (string \<times> string list) list \<times> UXGuideEngine" where
  "UXGuideEngine_get_checklist self domains = (checklist_loop domains (guidelines self) [], self)"

text \<open>The body of the \<^verbatim>\<open>try\<close> in \<^verbatim>\<open>_load_guidelines\<close>.\<close>

definition parse_guideline :: "row \<Rightarrow> error + UXGuideline loaded" where
  "parse_guideline row =
     bind_err (row_item row ''domain'') (\<lambda>cell.
     bind_err (enum_of_cell UXDomain_of_value cell) (\<lambda>domain.
     bind_err (row_item row ''topic'') (\<lambda>topic.
     bind_err (row_item row ''best_practice'') (\<lambda>best_practice.
     bind_err (row_item row ''anti_pattern'') (\<lambda>anti_pattern.
     bind_err (row_item row ''example'') (\<lambda>example.
     bind_err (row_item row ''impact'') (\<lambda>impact.
     bind_err (row_item row ''complexity'') (\<lambda>complexity.
       Inr (case (topic, best_practice, anti_pattern, example, impact, complexity) of
              (Some t, Some b, Some a, Some e, Some i, Some c) \<Rightarrow>
                Typed \<lparr>ux_domain = domain, ux_topic = t, ux_best_practice = b,
                       ux_anti_pattern = a, ux_example = e, ux_impact = i,
                       ux_complexity = c\<rparr>
            | _ \<Rightarrow> With_None)))))))))"

text \<open>
  \<^verbatim>\<open>_load_guidelines\<close>: \<open>None\<close> when \<^verbatim>\<open>ux_guidelines.csv\<close> does not exist, else what
  the reader of the file yields. The result is the store and the warnings printed, or
  the exception that ended the loading.
\<close>

definition load_guidelines ::
  "(error + row) list option \<Rightarrow> error + UXGuideline loaded list \<times> error list" where
  "load_guidelines csv =
     (case csv of None \<Rightarrow> Inr (map Typed get_default_guidelines, [])
      | Some reader \<Rightarrow> load_rows parse_guideline reader ([], []))"

section \<open>Landing page patterns (landing.py)\<close>

datatype LandingCategory =
  CLASSIC | VIDEO | PRICING | PRODUCT | SOCIAL | COMPARISON | FAQ | LAYOUT | MINIMAL
  | CONVERSION | INTERACTIVE | NARRATIVE | DATA | TRUST | THEME

fun LandingCategory_value :: "LandingCategory \<Rightarrow> string" where
  "LandingCategory_value CLASSIC = ''classic''"
| "LandingCategory_value VIDEO = ''video''"
| "LandingCategory_value PRICING = ''pricing''"
| "LandingCategory_value PRODUCT = ''product''"
| "LandingCategory_value SOCIAL = ''social''"
| "LandingCategory_value COMPARISON = ''comparison''"
| "LandingCategory_value FAQ = ''faq''"
| "LandingCategory_value LAYOUT = ''layout''"
| "LandingCategory_value MINIMAL = ''minimal''"
| "LandingCategory_value CONVERSION = ''conversion''"
| "LandingCategory_value INTERACTIVE = ''interactive''"
| "LandingCategory_value NARRATIVE = ''narrative''"
| "LandingCategory_value DATA = ''data''"
| "LandingCategory_value TRUST = ''trust''"
| "LandingCategory_value THEME = ''theme''"

definition LandingCategory_all :: "LandingCategory list" where
  "LandingCategory_all =
     [CLASSIC, VIDEO, PRICING, PRODUCT, SOCIAL, COMPARISON, FAQ, LAYOUT, MINIMAL, CONVERSION,
      INTERACTIVE, NARRATIVE, DATA, TRUST, THEME]"

text \<open>\<^verbatim>\<open>LandingCategory(v)\<close>\<close>

definition LandingCategory_of_value :: "string \<Rightarrow> error + LandingCategory" where
  "LandingCategory_of_value v =
     (case find (\<lambda>c. LandingCategory_value c = v) LandingCategory_all of
        None \<Rightarrow> Inl ValueError | Some c \<Rightarrow> Inr c)"

record LandingSection =
  sec_name :: string
  sec_type :: string
  sec_content_hint :: string
  sec_required :: bool
  sec_order :: int

record CTAStrategy =
  cta_primary_placement :: string
  cta_secondary_placements :: "string list"
  cta_style :: string
  cta_urgency :: string
  cta_text_variations :: "string list"

record LandingPattern =
  lp_name :: string
  lp_category :: LandingCategory
  lp_description :: string
  lp_sections :: "LandingSection list"
  lp_cta_strategy :: CTAStrategy
  lp_best_for :: "string list"
  lp_conversion_tips :: "string list"
  lp_complexity :: string
  lp_keywords :: "string list"

text \<open>The generator: its store is the list \<^verbatim>\<open>self.patterns\<close>.\<close>

record LandingPatternGenerator =
  landing_patterns :: "LandingPattern list"

text \<open>\<^verbatim>\<open>_infer_section_type\<close>: the first entry of \<^verbatim>\<open>type_map\<close> with a matching word.\<close>

definition type_map :: "(string \<times> string list) list" where
  "type_map =
     [(''hero'', [''hero'', ''video_hero'', ''split_hero'', ''dark_hero'', ''single_cta'']),
      (''features'', [''features'', ''zigzag_features'', ''dark_features'', ''feature'']),
      (''pricing'', [''pricing_plans'', ''pricing'', ''plans'']),
      (''testimonials'', [''testimonials'', ''social_proof'', ''reviews'']),
      (''comparison'', [''comparison_table'', ''comparison'']),
      (''faq'', [''faq'', ''faq_categories'', ''questions'']),
      (''demo'', [''interactive_demo'', ''video_hero'', ''product_gallery'']),
      (''stats'', [''stats_dashboard'', ''trust_badges'', ''stats'']),
      (''cta'', [''cta'', ''contact_cta'', ''repeating_ctas'']),
      (''story'', [''story_sections'', ''timeline'', ''narrative''])]"

definition infer_section_type :: "string \<Rightarrow> string" where
  "infer_section_type name =
     (let name_lower = lower name in
      case find (\<lambda>(type_name, patterns). list_ex (\<lambda>pattern. str_in pattern name_lower) patterns)
             type_map of
        Some (type_name, patterns) \<Rightarrow> type_name
      | None \<Rightarrow> ''content'')"

text \<open>\<^verbatim>\<open>_get_content_hint\<close>\<close>

definition hints :: "(string \<times> string) list" where
  "hints =
     [(''hero'', ''Compelling headline, subheadline, primary CTA, hero image/video''),
      (''features'', ''3-6 key features with icons, titles, descriptions''),
      (''pricing'', ''2-4 pricing tiers, highlight recommended plan''),
      (''testimonials'', ''3-5 customer quotes with photos and titles''),
      (''comparison'', ''Side-by-side feature comparison table''),
      (''faq'', ''5-10 common questions with clear answers''),
      (''demo'', ''Interactive or video demonstration''),
      (''stats'', ''Key metrics, social proof numbers''),
      (''cta'', ''Clear call-to-action with benefit statement''),
      (''content'', ''Relevant content for this section'')]"

definition get_content_hint :: "string \<Rightarrow> string" where
  "get_content_hint section_type =
     (case map_of hints section_type of None \<Rightarrow> ''Content for this section'' | Some h \<Rightarrow> h)"

text \<open>\<^verbatim>\<open>_get_cta_variations\<close>\<close>

definition base_ctas :: "(string \<times> string list) list" where
  "base_ctas =
     [(''SaaS'', [''Start Free Trial'', ''Get Started'', ''Request Demo'', ''Start Now'']),
      (''E-commerce'', [''Shop Now'', ''Browse Collection'', ''Add to Cart'', ''Buy Now'']),
      (''Marketing'', [''Learn More'', ''Get Started'', ''Contact Us'', ''Sign Up'']),
      (''B2B'', [''Request Demo'', ''Contact Sales'', ''Enterprise Plans'', ''Book a Call'']),
      (''Freemium'', [''Start Free'', ''Upgrade Now'', ''Get Pro'', ''Unlock Features'']),
      (''Mobile'', [''Download App'', ''Get on iOS'', ''Get on Android'', ''Install Now'']),
      (''Default'', [''Get Started'', ''Learn More'', ''Contact Us'', ''Sign Up''])]"

definition get_cta_variations :: "string \<Rightarrow> string list" where
  "get_cta_variations best_for =
     (case find (\<lambda>(key, cta_list). str_in (lower key) (lower best_for)) base_ctas of
        Some (key, cta_list) \<Rightarrow> cta_list
      | None \<Rightarrow> (case map_of base_ctas ''Default'' of Some cta_list \<Rightarrow> cta_list | None \<Rightarrow> []))"

text \<open>\<^verbatim>\<open>s.title()\<close> on ASCII text and \<^verbatim>\<open>s.replace("_", " ")\<close>.\<close>

fun title_aux :: "bool \<Rightarrow> string \<Rightarrow> string" where
  "title_aux previous_is_cased [] = []"
| "title_aux previous_is_cased (c # cs) =
     (if is_alpha c
      then (if previous_is_cased then lower_char c else upper_char c) # title_aux True cs
      else c # title_aux False cs)"

definition title :: "string \<Rightarrow> string" where
  "title s = title_aux False s"

definition replace_underscores :: "string \<Rightarrow> string" where
  "replace_underscores s = map (\<lambda>c. if c = CHR ''_'' then CHR '' '' else c) s"

text \<open>
  The body of the \<^verbatim>\<open>try\<close> in \<^verbatim>\<open>_parse_pattern\<close>. \<^verbatim>\<open>sections_raw.split\<close> and, in
  \<^verbatim>\<open>_get_cta_variations\<close>, \<^verbatim>\<open>best_for.lower\<close> are called on what \<^verbatim>\<open>row.get\<close> returned.
\<close>

definition parse_pattern :: "row \<Rightarrow> error + LandingPattern loaded" where
  "parse_pattern row =
     bind_err (str_method (row_get row ''sections'' [])) (\<lambda>sections_raw.
       let section_names = map strip (split_on CHR '','' sections_raw);
           sections =
             map (\<lambda>(i, name).
                    let section_type = infer_section_type name in
                    \<lparr>sec_name = title (replace_underscores name), sec_type = section_type,
                     sec_content_hint = get_content_hint section_type,
                     sec_required = (i = 0), sec_order = int i\<rparr>)
                 (enumerate 0 section_names)
       in
     bind_err (str_method (row_get row ''best_for'' [])) (\<lambda>best_for.
       let cta_strategy =
             \<lparr>cta_primary_placement = (case section_names of [] \<Rightarrow> ''hero'' | n # ns \<Rightarrow> n),
              cta_secondary_placements = [], cta_style = ''button'', cta_urgency = ''medium'',
              cta_text_variations = get_cta_variations best_for\<rparr>
       in
     bind_err (row_item row ''name'') (\<lambda>name.
     bind_err (enum_of_cell LandingCategory_of_value (row_get row ''category'' ''classic''))
       (\<lambda>category.
     bind_err (row_item row ''description'') (\<lambda>description.
       Inr (case (name, description, row_get row ''complexity'' ''medium'') of
              (Some n, Some d, Some c) \<Rightarrow>
                Typed \<lparr>lp_name = n, lp_category = category, lp_description = d,
                       lp_sections = sections, lp_cta_strategy = cta_strategy,
                       lp_best_for = split_on CHR '','' best_for,
                       lp_conversion_tips =
                         (case row_get_none row ''conversion_tips'' of
                            None \<Rightarrow> []
                          | Some tips \<Rightarrow> if tips \<noteq> [] then split_on CHR '','' tips else []),
                       lp_complexity = c,
                       lp_keywords =
                         (case row_get_none row ''keywords'' of
                            None \<Rightarrow> []
                          | Some ks \<Rightarrow> if ks \<noteq> [] then split_on CHR '','' ks else [])\<rparr>
            | _ \<Rightarrow> With_None))))))"

definition get_default_patterns :: "LandingPattern list" where
  "get_default_patterns =
     [\<lparr>lp_name = ''Hero + Features'', lp_category = CLASSIC,
       lp_description = ''Classic landing page with hero section and feature showcase'',
       lp_sections =
         [\<lparr>sec_name = ''Hero'', sec_type = ''hero'',
           sec_content_hint = ''Compelling headline and primary CTA'',
           sec_required = True, sec_order = 0\<rparr>,
          \<lparr>sec_name = ''Features'', sec_type = ''features'',
           sec_content_hint = ''3-6 key features with icons'',
           sec_required = False, sec_order = 1\<rparr>,
          \<lparr>sec_name = ''Social Proof'', sec_type = ''testimonials'',
           sec_content_hint = ''Customer testimonials'',
           sec_required = False, sec_order = 2\<rparr>,
          \<lparr>sec_name = ''CTA'', sec_type = ''cta'',
           sec_content_hint = ''Final call-to-action'',
           sec_required = False, sec_order = 3\<rparr>],
       lp_cta_strategy =
         \<lparr>cta_primary_placement = ''hero'', cta_secondary_placements = [''features'', ''cta''],
          cta_style = ''button'', cta_urgency = ''medium'',
          cta_text_variations = [''Get Started'', ''Learn More'', ''Start Free Trial'']\<rparr>,
       lp_best_for = [''SaaS'', ''Marketing'', ''Product''],
       lp_conversion_tips =
         [''Place primary CTA in hero section'', ''Use contrasting color for CTA''],
       lp_complexity = ''medium'',
       lp_keywords = [''hero'', ''features'', ''classic'', ''landing'']\<rparr>,
      \<lparr>lp_name = ''Minimal Single CTA'', lp_category = MINIMAL,
       lp_description = ''Ultra-minimalist page with single focused action'',
       lp_sections =
         [\<lparr>sec_name = ''Single CTA'', sec_type = ''hero'',
           sec_content_hint = ''One clear headline and one button'',
           sec_required = True, sec_order = 0\<rparr>],
       lp_cta_strategy =
         \<lparr>cta_primary_placement = ''hero'', cta_secondary_placements = [],
          cta_style = ''button'', cta_urgency = ''high'',
          cta_text_variations = [''Sign Up'', ''Get Started'', ''Join Now'']\<rparr>,
       lp_best_for = [''Newsletter'', ''Signup'', ''Waitlist''],
       lp_conversion_tips = [''Remove all distractions'', ''Use plenty of whitespace''],
       lp_complexity = ''low'',
       lp_keywords = [''minimal'', ''simple'', ''focused'', ''single'']\<rparr>]"

text \<open>
  \<^verbatim>\<open>_load_patterns\<close>: \<open>None\<close> when \<^verbatim>\<open>landing_patterns.csv\<close> does not exist.
  \<^verbatim>\<open>_parse_pattern\<close> returns \<^verbatim>\<open>None\<close> for a row whose parse raised, and the loop
  appends what is not \<^verbatim>\<open>None\<close>.
\<close>

definition load_patterns ::
  "(error + row) list option \<Rightarrow> error + LandingPattern loaded list \<times> error list" where
  "load_patterns csv =
     (case csv of None \<Rightarrow> Inr (map Typed get_default_patterns, [])
      | Some reader \<Rightarrow> load_rows parse_pattern reader ([], []))"

text \<open>The score \<^verbatim>\<open>search\<close> gives a pattern for the lower-cased query.\<close>

definition pattern_score :: "string \<Rightarrow> LandingPattern \<Rightarrow> int" where
  "pattern_score query_lower pattern =
     (let score = 0;
          score = (if str_in query_lower (lower (lp_name pattern)) then score + 10 else score);
          score = (if str_in query_lower (LandingCategory_value (lp_category pattern))
                   then score + 5 else score);
          score = foldl (\<lambda>score keyword.
                           if str_in query_lower (lower keyword) then score + 3 else score)
                    score (lp_keywords pattern)
      in foldl (\<lambda>score use_case.
                  if str_in query_lower (lower use_case) then score + 2 else score)
           score (lp_best_for pattern))"

text \<open>The loop of \<^verbatim>\<open>search\<close>, with \<^verbatim>\<open>scored_patterns\<close> as accumulator.\<close>

fun landing_search_loop ::
  "string \<Rightarrow> LandingPattern list \<Rightarrow> (LandingPattern \<times> int) list
     \<Rightarrow> (LandingPattern \<times> int) list" where
  "landing_search_loop query_lower [] scored_patterns = scored_patterns"
| "landing_search_loop query_lower (pattern # patterns) scored_patterns =
     (let score = pattern_score query_lower pattern in
      if score > 0
      then landing_search_loop query_lower patterns (scored_patterns @ [(pattern, score)])
      else landing_search_loop query_lower patterns scored_patterns)"

text \<open>\<^verbatim>\<open>LandingPatternGenerator.search\<close> on the store \<open>ps\<close>.\<close>

definition landing_search :: "LandingPattern list \<Rightarrow> string \<Rightarrow> int \<Rightarrow> LandingPattern list" where
  "landing_search ps query max_results =
     map fst (slice_to max_results (sort_desc snd (landing_search_loop (lower query) ps [])))"

definition LandingPatternGenerator_search ::
  "LandingPatternGenerator \<Rightarrow> string \<Rightarrow> int
     \<Rightarrow> LandingPattern list \<times> LandingPatternGenerator" where
  "LandingPatternGenerator_search self query max_results =
     (landing_search (landing_patterns self) query max_results, self)"

text \<open>\<^verbatim>\<open>get_pattern\<close>: the first pattern of that name, compared in lower case.\<close>

fun get_pattern :: "LandingPattern list \<Rightarrow> string \<Rightarrow> LandingPattern option" where
  "get_pattern [] name = None"
| "get_pattern (pattern # patterns) name =
     (if lower (lp_name pattern) = lower name then Some pattern else get_pattern patterns name)"

text \<open>\<^verbatim>\<open>recommend\<close> on the store \<open>ps\<close>; \<^verbatim>\<open>audience\<close> is not read.\<close>

definition recommend ::
  "LandingPattern list \<Rightarrow> string \<Rightarrow> string \<Rightarrow> string \<Rightarrow> LandingPattern option" where
  "recommend ps product_type goal audience =
     (let goal_lower = lower goal;
          product_lower = lower product_type
      in
      if goal_lower \<in> set [''signup'', ''register'', ''newsletter''] then
        or_else (get_pattern ps ''Minimal Single CTA'') (get_pattern ps ''Hero + Features'')
      else if goal_lower \<in> set [''purchase'', ''buy'', ''order''] then
        or_else (get_pattern ps ''Product Showcase'') (get_pattern ps ''Hero + Features'')
      else if goal_lower \<in> set [''demo'', ''trial''] then
        or_else (get_pattern ps ''Interactive Demo'') (get_pattern ps ''Video-First'')
      else if str_in ''pricing'' goal_lower then
        get_pattern ps ''Pricing Preview''
      else if product_lower \<in> set [''b2b'', ''enterprise'', ''saas''] then
        or_else (get_pattern ps ''Comparison Table'') (get_pattern ps ''Trust Badges'')
      else
        get_pattern ps ''Hero + Features'')"

definition LandingPatternGenerator_recommend ::
  "LandingPatternGenerator \<Rightarrow> string \<Rightarrow> string \<Rightarrow> string
     \<Rightarrow> LandingPattern option \<times> LandingPatternGenerator" where
  "LandingPatternGenerator_recommend self product_type goal audience =
     (recommend (landing_patterns self) product_type goal audience, self)"

text \<open>\<^verbatim>\<open>generate_structure\<close>: the nested dictionary, as records.\<close>

record StructureSection =
  ss_name :: string
  ss_type :: string
  ss_content_hint :: string
  ss_order :: int

record PageStructure =
  st_pattern :: string
  st_description :: string
  st_sections :: "StructureSection list"
  st_primary_placement :: string
  st_primary_style :: string
  st_primary_texts :: "string list"
  st_secondary :: "(string \<times> string) list"
  st_conversion_tips :: "string list"
  st_complexity :: string

definition generate_structure :: "LandingPattern \<Rightarrow> PageStructure" where
  "generate_structure pattern =
     \<lparr>st_pattern = lp_name pattern,
      st_description = lp_description pattern,
      st_sections =
        map (\<lambda>section. \<lparr>ss_name = sec_name section, ss_type = sec_type section,
                          ss_content_hint = sec_content_hint section,
                          ss_order = sec_order section\<rparr>)
            (lp_sections pattern),
      st_primary_placement = cta_primary_placement (lp_cta_strategy pattern),
      st_primary_style = cta_style (lp_cta_strategy pattern),
      st_primary_texts = slice_to 3 (cta_text_variations (lp_cta_strategy pattern)),
      st_secondary =
        map (\<lambda>placement. (placement, cta_style (lp_cta_strategy pattern)))
            (cta_secondary_placements (lp_cta_strategy pattern)),
      st_conversion_tips = lp_conversion_tips pattern,
      st_complexity = lp_complexity pattern\<rparr>"

definition LandingPatternGenerator_generate_structure ::
  "LandingPatternGenerator \<Rightarrow> LandingPattern \<Rightarrow> PageStructure \<times> LandingPatternGenerator" where
  "LandingPatternGenerator_generate_structure self pattern = (generate_structure pattern, self)"

section \<open>Technology stacks (tech_stack.py)\<close>

datatype TechStack =
  NEXTJS | REMIX | REACT | VUE | SVELTEKIT | ANGULAR | ASTRO | SOLIDJS | QWIK | SWIFTUI | REACT_NATIVE | FLUTTER

fun TechStack_value :: "TechStack \<Rightarrow> string" where
  "TechStack_value NEXTJS = ''Next.js''"
| "TechStack_value REMIX = ''Remix''"
| "TechStack_value REACT = ''React''"
| "TechStack_value VUE = ''Vue''"
| "TechStack_value SVELTEKIT = ''SvelteKit''"
| "TechStack_value ANGULAR = ''Angular''"
| "TechStack_value ASTRO = ''Astro''"
| "TechStack_value SOLIDJS = ''SolidJS''"
| "TechStack_value QWIK = ''Qwik''"
| "TechStack_value SWIFTUI = ''SwiftUI''"
| "TechStack_value REACT_NATIVE = ''React Native''"
| "TechStack_value FLUTTER = ''Flutter''"

definition TechStack_all :: "TechStack list" where
  "TechStack_all =
     [NEXTJS, REMIX, REACT, VUE, SVELTEKIT, ANGULAR, ASTRO, SOLIDJS, QWIK, SWIFTUI, REACT_NATIVE, FLUTTER]"

text \<open>\<^verbatim>\<open>TechStack(v)\<close>\<close>

definition TechStack_of_value :: "string \<Rightarrow> error + TechStack" where
  "TechStack_of_value v =
     (case find (\<lambda>c. TechStack_value c = v) TechStack_all of
        None \<Rightarrow> Inl ValueError | Some c \<Rightarrow> Inr c)"

text \<open>
  The members of \<^verbatim>\<open>PracticeCategory\<close> carry the prefix \<open>PC_\<close> here, since
  \<^verbatim>\<open>PERFORMANCE\<close> is also a member of \<^verbatim>\<open>UXDomain\<close>.
\<close>

datatype PracticeCategory =
  PC_ARCHITECTURE | PC_PERFORMANCE | PC_STATE_MANAGEMENT | PC_STYLING | PC_TESTING | PC_DEPLOYMENT | PC_SECURITY | PC_ACCESSIBILITY

fun PracticeCategory_value :: "PracticeCategory \<Rightarrow> string" where
  "PracticeCategory_value PC_ARCHITECTURE = ''architecture''"
| "PracticeCategory_value PC_PERFORMANCE = ''performance''"
| "PracticeCategory_value PC_STATE_MANAGEMENT = ''state_management''"
| "PracticeCategory_value PC_STYLING = ''styling''"
| "PracticeCategory_value PC_TESTING = ''testing''"
| "PracticeCategory_value PC_DEPLOYMENT = ''deployment''"
| "PracticeCategory_value PC_SECURITY = ''security''"
| "PracticeCategory_value PC_ACCESSIBILITY = ''accessibility''"

definition PracticeCategory_all :: "PracticeCategory list" where
  "PracticeCategory_all =
     [PC_ARCHITECTURE, PC_PERFORMANCE, PC_STATE_MANAGEMENT, PC_STYLING, PC_TESTING, PC_DEPLOYMENT, PC_SECURITY, PC_ACCESSIBILITY]"

text \<open>\<^verbatim>\<open>PracticeCategory(v)\<close>\<close>

definition PracticeCategory_of_value :: "string \<Rightarrow> error + PracticeCategory" where
  "PracticeCategory_of_value v =
     (case find (\<lambda>c. PracticeCategory_value c = v) PracticeCategory_all of
        None \<Rightarrow> Inl ValueError | Some c \<Rightarrow> Inr c)"

record TechBestPractice =
  bp_stack :: TechStack
  bp_category :: PracticeCategory
  bp_topic :: string
  bp_practice :: string
  bp_anti_pattern :: string
  bp_code_example :: string
  bp_benefits :: string
  bp_complexity :: string

record TechPattern =
  tp_stack :: TechStack
  tp_name :: string
  tp_description :: string
  tp_use_case :: string
  tp_implementation :: string
  tp_pros :: "string list"
  tp_cons :: "string list"

record PerformanceTip =
  pt_stack :: TechStack
  pt_topic :: string
  pt_technique :: string
  pt_impact :: string
  pt_effort :: string
  pt_description :: string
  pt_code_snippet :: string

record StackRecommendation =
  sr_practice :: TechBestPractice
  sr_priority :: string
  sr_context :: string
  sr_alternatives :: "string list"
  sr_resources :: "string list"

text \<open>The engine: its three stores.\<close>

record TechStackEngine =
  tech_practices :: "TechBestPractice list"
  tech_patterns :: "TechPattern list"
  tech_performance_tips :: "PerformanceTip list"

text \<open>The bodies of the \<^verbatim>\<open>try\<close> in the three loading loops.\<close>

definition parse_practice :: "row \<Rightarrow> error + TechBestPractice loaded" where
  "parse_practice row =
     bind_err (row_item row ''stack'') (\<lambda>cell.
     bind_err (enum_of_cell TechStack_of_value cell) (\<lambda>stack.
     bind_err (row_item row ''category'') (\<lambda>cell'.
     bind_err (enum_of_cell PracticeCategory_of_value cell') (\<lambda>category.
     bind_err (row_item row ''topic'') (\<lambda>topic.
     bind_err (row_item row ''practice'') (\<lambda>practice.
     bind_err (row_item row ''anti_pattern'') (\<lambda>anti_pattern.
     bind_err (row_item row ''code_example'') (\<lambda>code_example.
     bind_err (row_item row ''benefits'') (\<lambda>benefits.
     bind_err (row_item row ''complexity'') (\<lambda>complexity.
       Inr (case (topic, practice, anti_pattern, code_example, benefits, complexity) of
              (Some t, Some p, Some a, Some e, Some b, Some c) \<Rightarrow>
                Typed \<lparr>bp_stack = stack, bp_category = category, bp_topic = t,
                       bp_practice = p, bp_anti_pattern = a, bp_code_example = e,
                       bp_benefits = b, bp_complexity = c\<rparr>
            | _ \<Rightarrow> With_None)))))))))))"

definition parse_tech_pattern :: "row \<Rightarrow> error + TechPattern loaded" where
  "parse_tech_pattern row =
     bind_err (row_item row ''stack'') (\<lambda>cell.
     bind_err (enum_of_cell TechStack_of_value cell) (\<lambda>stack.
     bind_err (row_item row ''name'') (\<lambda>name.
     bind_err (row_item row ''description'') (\<lambda>description.
     bind_err (row_item row ''use_case'') (\<lambda>use_case.
     bind_err (row_item row ''implementation'') (\<lambda>implementation.
     bind_err (row_item row ''pros'') (\<lambda>pros_cell.
     bind_err (str_method pros_cell) (\<lambda>pros.
     bind_err (row_item row ''cons'') (\<lambda>cons_cell.
     bind_err (str_method cons_cell) (\<lambda>cons.
       Inr (case (name, description, use_case, implementation) of
              (Some n, Some d, Some u, Some i) \<Rightarrow>
                Typed \<lparr>tp_stack = stack, tp_name = n, tp_description = d, tp_use_case = u,
                       tp_implementation = i, tp_pros = split_on CHR '';'' pros,
                       tp_cons = split_on CHR '';'' cons\<rparr>
            | _ \<Rightarrow> With_None)))))))))))"

definition parse_performance_tip :: "row \<Rightarrow> error + PerformanceTip loaded" where
  "parse_performance_tip row =
     bind_err (row_item row ''stack'') (\<lambda>cell.
     bind_err (enum_of_cell TechStack_of_value cell) (\<lambda>stack.
     bind_err (row_item row ''topic'') (\<lambda>topic.
     bind_err (row_item row ''technique'') (\<lambda>technique.
     bind_err (row_item row ''impact'') (\<lambda>impact.
     bind_err (row_item row ''effort'') (\<lambda>effort.
     bind_err (row_item row ''description'') (\<lambda>description.
     bind_err (row_item row ''code_snippet'') (\<lambda>code_snippet.
       Inr (case (topic, technique, impact, effort, description, code_snippet) of
              (Some t, Some q, Some i, Some e, Some d, Some c) \<Rightarrow>
                Typed \<lparr>pt_stack = stack, pt_topic = t, pt_technique = q, pt_impact = i,
                       pt_effort = e, pt_description = d, pt_code_snippet = c\<rparr>
            | _ \<Rightarrow> With_None)))))))))"

text \<open>\<^verbatim>\<open>_load_practices\<close>, \<^verbatim>\<open>_load_patterns\<close>, \<^verbatim>\<open>_load_performance\<close>\<close>

definition load_practices ::
  "(error + row) list \<Rightarrow> error + TechBestPractice loaded list \<times> error list" where
  "load_practices reader = load_rows parse_practice reader ([], [])"

definition load_tech_patterns ::
  "(error + row) list \<Rightarrow> error + TechPattern loaded list \<times> error list" where
  "load_tech_patterns reader = load_rows parse_tech_pattern reader ([], [])"

definition load_performance ::
  "(error + row) list \<Rightarrow> error + PerformanceTip loaded list \<times> error list" where
  "load_performance reader = load_rows parse_performance_tip reader ([], [])"

definition get_default_practices :: "TechBestPractice list" where
  "get_default_practices =
     [\<lparr>bp_stack = NEXTJS, bp_category = PC_ARCHITECTURE,
       bp_topic = ''Server Components'',
       bp_practice = ''Use Server Components by default, Client Components only when needed'',
       bp_anti_pattern = (''Mark all components with '' @ [CHR 0x27] @ ''use client'' @
                          [CHR 0x27]),
       bp_code_example =
         (''// Server Component (default)\<newline>export default function Profile() '' @
          ''{\<newline>  return <div>{user.name}</div>\<newline>}\<newline>\<newline>// '' @
          ''Client Component\<newline>'' @ [CHR 0x27] @ ''use client'' @ [CHR 0x27] @
          ''\<newline>export function Button() { return <button>Click</button> }''),
       bp_benefits = ''Reduced bundle size, improved performance, simpler data fetching'',
       bp_complexity = ''low''\<rparr>,
      \<lparr>bp_stack = REACT, bp_category = PC_PERFORMANCE,
       bp_topic = ''Code Splitting'',
       bp_practice = ''Use React.lazy and Suspense for route-based code splitting'',
       bp_anti_pattern = ''Load entire application bundle upfront'',
       bp_code_example =
         (''const Dashboard = React.lazy(() => import('' @ [CHR 0x27] @ ''./Dashboard'' @
          [CHR 0x27] @
          ''));\<newline>\<newline><Suspense fallback={<Loading />}>\<newline>  <Dashbo'' @
          ''ard />\<newline></Suspense>''),
       bp_benefits = ''Faster initial load, better user experience'',
       bp_complexity = ''medium''\<rparr>,
      \<lparr>bp_stack = VUE, bp_category = PC_STATE_MANAGEMENT,
       bp_topic = ''Composition API'',
       bp_practice = ''Use Composition API with <script setup> syntax'',
       bp_anti_pattern = ''Mix Options API and Composition API'',
       bp_code_example =
         (''<script setup>\<newline>import { ref, computed } from '' @ [CHR 0x27] @ ''vue'' @
          [CHR 0x27] @
          ''\<newline>const count = ref(0)\<newline>const doubled = computed(() => cou'' @
          ''nt.value * 2)\<newline></script>''),
       bp_benefits = ''Better type inference, code organization, tree-shaking'',
       bp_complexity = ''low''\<rparr>]"

text \<open>
  \<^verbatim>\<open>_get_default_patterns\<close> lists two patterns. The first is written with keyword
  arguments throughout:
\<close>

definition parallel_routes :: TechPattern where
  "parallel_routes =
     \<lparr>tp_stack = NEXTJS, tp_name = ''Parallel Routes'',
       tp_description = ''Render multiple sections of a page in parallel'',
       tp_use_case = ''Dashboard with independent sections'',
       tp_implementation =
         (''// app/dashboard/layout.tsx\<newline>export default function Layout({\<newline>'' @
          ''  children,\<newline>  analytics,\<newline>  users\<newline>}: {\<newline>  '' @
          ''children: React.ReactNode\<newline>  analytics: React.ReactNode\<newline> '' @
          '' users: React.ReactNode\<newline>}) {\<newline>  return (\<newline>    <div'' @
          ''>\<newline>      {children}\<newline>      {analytics}\<newline>      {user'' @
          ''s}\<newline>    </div>\<newline>  )\<newline>}''),
       tp_pros = [''Independent loading states'', ''Parallel rendering'', ''Better UX''],
       tp_cons = [''More complex routing'', ''Not suitable for all layouts'']\<rparr>"

text \<open>
  The second, \<^verbatim>\<open>Compound Components\<close>, ends its argument list with
  \<^verbatim>\<open>pros["Flexible API", ...], cons["Harder to understand", ...]\<close>: the \<^verbatim>\<open>=\<close> of the two
  keyword arguments is missing, which leaves two positional arguments after keyword
  arguments. This is the record the call spells out, reading the two as the keyword
  arguments \<^verbatim>\<open>pros\<close> and \<^verbatim>\<open>cons\<close>:
\<close>

definition compound_components :: TechPattern where
  "compound_components =
     \<lparr>tp_stack = REACT, tp_name = ''Compound Components'',
       tp_description = ''Build components that share state implicitly'',
       tp_use_case = ''Modals, Dropdowns, Tabs'',
       tp_implementation =
         (''const Tabs = ({ children }) => {\<newline>  const [active, setActive] = u'' @
          ''seState(0)\<newline>  return (\<newline>    <TabsContext value={{ active, '' @
          ''setActive }}>\<newline>      {children}\<newline>    </TabsContext>\<newline>'' @
          ''  )\<newline>}''),
       tp_pros = [''Flexible API'', ''Less prop drilling'', ''Intuitive usage''],
       tp_cons = [''Harder to understand'', ''Requires context'']\<rparr>"

text \<open>
  Python compiles a module as a whole before it runs any statement of it, and a call
  with a positional argument after a keyword argument is no Python
  (\<^verbatim>\<open>SyntaxError: positional argument follows keyword argument\<close>). The argument
  lists of the two calls, as the file writes them:
\<close>

datatype argument = Positional | Keyword string

fun call_ok :: "argument list \<Rightarrow> bool" where
  "call_ok [] = True"
| "call_ok (Positional # args) = call_ok args"
| "call_ok (Keyword k # args) = list_all (\<lambda>a. a \<noteq> Positional) args"

definition parallel_routes_call :: "argument list" where
  "parallel_routes_call =
     map Keyword
       [''stack'', ''name'', ''description'', ''use_case'', ''implementation'', ''pros'',
        ''cons'']"

definition compound_components_call :: "argument list" where
  "compound_components_call =
     map Keyword [''stack'', ''name'', ''description'', ''use_case'', ''implementation'']
     @ [Positional, Positional]"

text \<open>
  Compiling \<^verbatim>\<open>tech_stack.py\<close>, which every import of the module starts with, and running
  code of the module: nothing of it runs unless it compiled.
\<close>

definition compile_tech_stack :: "error + unit" where
  "compile_tech_stack =
     (if call_ok parallel_routes_call \<and> call_ok compound_components_call then Inr ()
      else Inl SyntaxError)"

definition tech_stack_run :: "error + 'a \<Rightarrow> error + 'a" where
  "tech_stack_run body = bind_err compile_tech_stack (\<lambda>u. body)"

text \<open>\<^verbatim>\<open>_get_default_patterns\<close>, a function of the compiled module.\<close>

definition get_default_tech_patterns :: "error + TechPattern list" where
  "get_default_tech_patterns = tech_stack_run (Inr [parallel_routes, compound_components])"

definition get_default_performance :: "PerformanceTip list" where
  "get_default_performance =
     [\<lparr>pt_stack = NEXTJS, pt_topic = ''Image Optimization'',
       pt_technique = ''Use next/image for all images'',
       pt_impact = ''high'', pt_effort = ''low'',
       pt_description = ''Automatic optimization, lazy loading, and responsive images'',
       pt_code_snippet =
         (''import Image from '' @ [CHR 0x27] @ ''next/image'' @ [CHR 0x27] @
          ''\<newline>\<newline><Image\<newline>  src='' @ [CHR 0x27] @ ''/hero.jpg'' @
          [CHR 0x27] @ ''\<newline>  alt='' @ [CHR 0x27] @ ''Hero'' @ [CHR 0x27] @
          ''\<newline>  width={1200}\<newline>  height={600}\<newline>  priority\<newline>'' @
          ''/>'')\<rparr>,
      \<lparr>pt_stack = REACT, pt_topic = ''Memoization'',
       pt_technique = ''Use useMemo and useCallback sparingly'',
       pt_impact = ''medium'', pt_effort = ''medium'',
       pt_description = ''Memoize expensive computations and callbacks'',
       pt_code_snippet =
         (''const memoizedValue = useMemo(() => {\<newline>  return computeExpensiveV'' @
          ''alue(a, b)\<newline>}, [a, b])'')\<rparr>]"

text \<open>
  \<^verbatim>\<open>_load_data\<close>, called by the constructor: for each of the three files \<open>None\<close> when
  it does not exist, else what its reader yields. The result is the three stores and the
  warnings printed.
\<close>

record tech_files =
  practices_csv :: "(error + row) list option"
  patterns_csv :: "(error + row) list option"
  performance_csv :: "(error + row) list option"

record tech_stores =
  loaded_practices :: "TechBestPractice loaded list"
  loaded_patterns :: "TechPattern loaded list"
  loaded_performance_tips :: "PerformanceTip loaded list"

definition load_data :: "tech_files \<Rightarrow> error + tech_stores \<times> error list" where
  "load_data files =
     tech_stack_run
       (bind_err
          (case practices_csv files of Some reader \<Rightarrow> load_practices reader
           | None \<Rightarrow> Inr (map Typed get_default_practices, []))
          (\<lambda>(practices, w1).
        bind_err
          (case patterns_csv files of Some reader \<Rightarrow> load_tech_patterns reader
           | None \<Rightarrow>
               bind_err get_default_tech_patterns (\<lambda>patterns. Inr (map Typed patterns, [])))
          (\<lambda>(patterns, w2).
        bind_err
          (case performance_csv files of Some reader \<Rightarrow> load_performance reader
           | None \<Rightarrow> Inr (map Typed get_default_performance, []))
          (\<lambda>(performance_tips, w3).
             Inr (\<lparr>loaded_practices = practices, loaded_patterns = patterns,
                    loaded_performance_tips = performance_tips\<rparr>, w1 @ w2 @ w3)))))"

text \<open>\<^verbatim>\<open>TechStackEngine._determine_priority\<close>\<close>

definition tech_determine_priority :: "TechBestPractice \<Rightarrow> string" where
  "tech_determine_priority practice =
     (if bp_category practice = PC_SECURITY then ''critical''
      else if bp_category practice = PC_PERFORMANCE then ''high''
      else if bp_complexity practice = ''low'' then ''high''
      else ''medium'')"

text \<open>\<^verbatim>\<open>_get_context\<close>: the texts are Chinese, given here by their UTF-8 bytes.\<close>

definition contexts :: "(PracticeCategory \<times> string) list" where
  "contexts =
     [(PC_ARCHITECTURE, ([CHR 0xE6, CHR 0x9E, CHR 0xB6, CHR 0xE6, CHR 0x9E, CHR 0x84, CHR 0xE5, CHR 0xB1] @
         [CHR 0x82, CHR 0xE9, CHR 0x9D, CHR 0xA2, CHR 0xE7, CHR 0x9A, CHR 0x84, CHR 0xE6] @
         [CHR 0x9C, CHR 0x80, CHR 0xE4, CHR 0xBD, CHR 0xB3, CHR 0xE5, CHR 0xAE, CHR 0x9E] @
         [CHR 0xE8, CHR 0xB7, CHR 0xB5, CHR 0xEF, CHR 0xBC, CHR 0x8C, CHR 0xE5, CHR 0xBD] @
         [CHR 0xB1, CHR 0xE5, CHR 0x93, CHR 0x8D, CHR 0xE6, CHR 0x95, CHR 0xB4, CHR 0xE4] @
         [CHR 0xBD, CHR 0x93, CHR 0xE4, CHR 0xBB, CHR 0xA3, CHR 0xE7, CHR 0xA0, CHR 0x81] @
         [CHR 0xE7, CHR 0xBB, CHR 0x84, CHR 0xE7, CHR 0xBB, CHR 0x87])),
      (PC_PERFORMANCE, ([CHR 0xE6, CHR 0x80, CHR 0xA7, CHR 0xE8, CHR 0x83, CHR 0xBD, CHR 0xE4, CHR 0xBC] @
         [CHR 0x98, CHR 0xE5, CHR 0x8C, CHR 0x96, CHR 0xE5, CHR 0xBB, CHR 0xBA, CHR 0xE8] @
         [CHR 0xAE, CHR 0xAE, CHR 0xEF, CHR 0xBC, CHR 0x8C, CHR 0xE6, CHR 0x8F, CHR 0x90] @
         [CHR 0xE5, CHR 0x8D, CHR 0x87, CHR 0xE7, CHR 0x94, CHR 0xA8, CHR 0xE6, CHR 0x88] @
         [CHR 0xB7, CHR 0xE4, CHR 0xBD, CHR 0x93, CHR 0xE9, CHR 0xAA, CHR 0x8C])),
      (PC_STATE_MANAGEMENT, ([CHR 0xE7, CHR 0x8A, CHR 0xB6, CHR 0xE6, CHR 0x80, CHR 0x81, CHR 0xE7, CHR 0xAE] @
         [CHR 0xA1, CHR 0xE7, CHR 0x90, CHR 0x86, CHR 0xE6, CHR 0xA8, CHR 0xA1, CHR 0xE5] @
         [CHR 0xBC, CHR 0x8F, CHR 0xEF, CHR 0xBC, CHR 0x8C, CHR 0xE7, CHR 0xA1, CHR 0xAE] @
         [CHR 0xE4, CHR 0xBF, CHR 0x9D, CHR 0xE6, CHR 0x95, CHR 0xB0, CHR 0xE6, CHR 0x8D] @
         [CHR 0xAE, CHR 0xE6, CHR 0xB5, CHR 0x81, CHR 0xE6, CHR 0xB8, CHR 0x85, CHR 0xE6] @
         [CHR 0x99, CHR 0xB0])),
      (PC_STYLING, ([CHR 0xE6, CHR 0xA0, CHR 0xB7, CHR 0xE5, CHR 0xBC, CHR 0x8F, CHR 0xE6, CHR 0x96] @
         [CHR 0xB9, CHR 0xE6, CHR 0xA1, CHR 0x88, CHR 0xEF, CHR 0xBC, CHR 0x8C, CHR 0xE4] @
         [CHR 0xBF, CHR 0x9D, CHR 0xE6, CHR 0x8C, CHR 0x81, CHR 0xE8, CHR 0xA7, CHR 0x86] @
         [CHR 0xE8, CHR 0xA7, CHR 0x89, CHR 0xE4, CHR 0xB8, CHR 0x80, CHR 0xE8, CHR 0x87] @
         [CHR 0xB4, CHR 0xE6, CHR 0x80, CHR 0xA7])),
      (PC_TESTING, ([CHR 0xE6, CHR 0xB5, CHR 0x8B, CHR 0xE8, CHR 0xAF, CHR 0x95, CHR 0xE7, CHR 0xAD] @
         [CHR 0x96, CHR 0xE7, CHR 0x95, CHR 0xA5, CHR 0xEF, CHR 0xBC, CHR 0x8C, CHR 0xE7] @
         [CHR 0xA1, CHR 0xAE, CHR 0xE4, CHR 0xBF, CHR 0x9D, CHR 0xE4, CHR 0xBB, CHR 0xA3] @
         [CHR 0xE7, CHR 0xA0, CHR 0x81, CHR 0xE8, CHR 0xB4, CHR 0xA8, CHR 0xE9, CHR 0x87] @
         [CHR 0x8F])),
      (PC_DEPLOYMENT, ([CHR 0xE9, CHR 0x83, CHR 0xA8, CHR 0xE7, CHR 0xBD, CHR 0xB2, CHR 0xE6, CHR 0x96] @
         [CHR 0xB9, CHR 0xE6, CHR 0xA1, CHR 0x88, CHR 0xEF, CHR 0xBC, CHR 0x8C, CHR 0xE7] @
         [CHR 0xAE, CHR 0x80, CHR 0xE5, CHR 0x8C, CHR 0x96, CHR 0xE5, CHR 0x8F, CHR 0x91] @
         [CHR 0xE5, CHR 0xB8, CHR 0x83, CHR 0xE6, CHR 0xB5, CHR 0x81, CHR 0xE7, CHR 0xA8] @
         [CHR 0x8B])),
      (PC_SECURITY, ([CHR 0xE5, CHR 0xAE, CHR 0x89, CHR 0xE5, CHR 0x85, CHR 0xA8, CHR 0xE5, CHR 0xAE] @
         [CHR 0x9E, CHR 0xE8, CHR 0xB7, CHR 0xB5, CHR 0xEF, CHR 0xBC, CHR 0x8C, CHR 0xE4] @
         [CHR 0xBF, CHR 0x9D, CHR 0xE6, CHR 0x8A, CHR 0xA4, CHR 0xE5, CHR 0xBA, CHR 0x94] @
         [CHR 0xE7, CHR 0x94, CHR 0xA8, CHR 0xE5, CHR 0x92, CHR 0x8C, CHR 0xE7, CHR 0x94] @
         [CHR 0xA8, CHR 0xE6, CHR 0x88, CHR 0xB7])),
      (PC_ACCESSIBILITY, ([CHR 0xE6, CHR 0x97, CHR 0xA0, CHR 0xE9, CHR 0x9A, CHR 0x9C, CHR 0xE7, CHR 0xA2] @
         [CHR 0x8D, CHR 0xE6, CHR 0x80, CHR 0xA7, CHR 0xEF, CHR 0xBC, CHR 0x8C, CHR 0xE7] @
         [CHR 0xA1, CHR 0xAE, CHR 0xE4, CHR 0xBF, CHR 0x9D, CHR 0xE6, CHR 0x89, CHR 0x80] @
         [CHR 0xE6, CHR 0x9C, CHR 0x89, CHR 0xE7, CHR 0x94, CHR 0xA8, CHR 0xE6, CHR 0x88] @
         [CHR 0xB7, CHR 0xE5, CHR 0x8F, CHR 0xAF, CHR 0xE7, CHR 0x94, CHR 0xA8]))]"

definition get_context :: "TechBestPractice \<Rightarrow> string" where
  "get_context practice =
     (case map_of contexts (bp_category practice) of
        None \<Rightarrow>
          ([CHR 0xE9, CHR 0x80, CHR 0x9A, CHR 0xE7, CHR 0x94, CHR 0xA8, CHR 0xE6, CHR 0x9C] @
         [CHR 0x80, CHR 0xE4, CHR 0xBD, CHR 0xB3, CHR 0xE5, CHR 0xAE, CHR 0x9E, CHR 0xE8] @
         [CHR 0xB7, CHR 0xB5])
      | Some c \<Rightarrow> c)"

definition get_alternatives :: "TechBestPractice \<Rightarrow> string list" where
  "get_alternatives practice = [''See documentation for alternatives'']"

definition stack_resources :: "(TechStack \<times> string list) list" where
  "stack_resources =
     [(NEXTJS, [''Next.js Documentation: https://nextjs.org/docs'',
         ''Next.js Learn: https://nextjs.org/learn'']),
      (REACT, [''React Documentation: https://react.dev'',
         ''React Patterns: https://reactpatterns.com'']),
      (VUE, [''Vue Documentation: https://vuejs.org/guide/'',
         ''Vue Style Guide: https://vuejs.org/style-guide/'']),
      (SVELTEKIT, [''SvelteKit Docs: https://kit.svelte.dev/docs'',
         ''Svelte Docs: https://svelte.dev/docs''])]"

definition tech_get_resources :: "TechBestPractice \<Rightarrow> string list" where
  "tech_get_resources practice =
     (case map_of stack_resources (bp_stack practice) of None \<Rightarrow> [] | Some rs \<Rightarrow> rs)"

text \<open>The score \<^verbatim>\<open>search_practices\<close> computes when a query is given.\<close>

definition practice_score :: "string \<Rightarrow> TechBestPractice \<Rightarrow> int" where
  "practice_score query_lower practice =
     (let score = 0;
          score = (if str_in query_lower (lower (bp_topic practice)) then score + 10 else score);
          score = (if str_in query_lower (lower (bp_practice practice)) then score + 8 else score)
      in if str_in query_lower (lower (bp_benefits practice)) then score + 5 else score)"

text \<open>The first loop of \<^verbatim>\<open>search_practices\<close>, with \<^verbatim>\<open>filtered_practices\<close> as accumulator.\<close>

fun search_practices_loop ::
  "string \<Rightarrow> string option \<Rightarrow> string option \<Rightarrow> TechBestPractice list
     \<Rightarrow> TechBestPractice list \<Rightarrow> TechBestPractice list" where
  "search_practices_loop stack_lower query category [] filtered_practices = filtered_practices"
| "search_practices_loop stack_lower query category (practice # practices) filtered_practices =
     (if lower (TechStack_value (bp_stack practice)) \<noteq> stack_lower
      then search_practices_loop stack_lower query category practices filtered_practices
      else if (case category of None \<Rightarrow> False
               | Some c \<Rightarrow> c \<noteq> [] \<and> lower (PracticeCategory_value (bp_category practice)) \<noteq> lower c)
      then search_practices_loop stack_lower query category practices filtered_practices
      else if (case query of None \<Rightarrow> False
               | Some q \<Rightarrow> q \<noteq> [] \<and> practice_score (lower q) practice = 0)
      then search_practices_loop stack_lower query category practices filtered_practices
      else search_practices_loop stack_lower query category practices
             (filtered_practices @ [practice]))"

definition stack_recommendation :: "TechBestPractice \<Rightarrow> StackRecommendation" where
  "stack_recommendation practice =
     \<lparr>sr_practice = practice, sr_priority = tech_determine_priority practice,
      sr_context = get_context practice, sr_alternatives = get_alternatives practice,
      sr_resources = tech_get_resources practice\<rparr>"

text \<open>\<^verbatim>\<open>TechStackEngine.search_practices\<close> on the store \<open>ps\<close>.\<close>

definition search_practices ::
  "TechBestPractice list \<Rightarrow> string \<Rightarrow> string option \<Rightarrow> string option \<Rightarrow> int
     \<Rightarrow> StackRecommendation list" where
  "search_practices ps stack query category max_results =
     map stack_recommendation
       (slice_to max_results (search_practices_loop (lower stack) query category ps []))"

definition TechStackEngine_search_practices ::
  "TechStackEngine \<Rightarrow> string \<Rightarrow> string option \<Rightarrow> string option \<Rightarrow> int
     \<Rightarrow> StackRecommendation list \<times> TechStackEngine" where
  "TechStackEngine_search_practices self stack query category max_results =
     (search_practices (tech_practices self) stack query category max_results, self)"

text \<open>
  The loop of \<^verbatim>\<open>get_performance_tips\<close>. Its state is the list \<^verbatim>\<open>tips\<close> and the loop
  variable \<^verbatim>\<open>tip\<close>, which is unbound (\<open>None\<close>) until the first iteration and keeps
  the last element after the loop.
\<close>

fun tips_loop ::
  "string \<Rightarrow> string option \<Rightarrow> string option \<Rightarrow> PerformanceTip list
     \<Rightarrow> PerformanceTip list \<times> PerformanceTip option
     \<Rightarrow> PerformanceTip list \<times> PerformanceTip option" where
  "tips_loop stack_lower impact effort [] (tips, tip) = (tips, tip)"
| "tips_loop stack_lower impact effort (t # ts) (tips, tip) =
     (if lower (TechStack_value (pt_stack t)) \<noteq> stack_lower
      then tips_loop stack_lower impact effort ts (tips, Some t)
      else if (case impact of None \<Rightarrow> False
               | Some i \<Rightarrow> i \<noteq> [] \<and> lower (pt_impact t) \<noteq> lower i)
      then tips_loop stack_lower impact effort ts (tips, Some t)
      else if (case effort of None \<Rightarrow> False
               | Some e \<Rightarrow> e \<noteq> [] \<and> lower (pt_effort t) \<noteq> lower e)
      then tips_loop stack_lower impact effort ts (tips, Some t)
      else tips_loop stack_lower impact effort ts (tips @ [t], Some t))"

definition impact_order :: "(string \<times> int) list" where
  "impact_order = [(''high'', 0), (''medium'', 1), (''low'', 2)]"

text \<open>
  The sort key \<^verbatim>\<open>lambda t: impact_order.get(tip.impact.lower(), 3)\<close>: it reads the
  variable \<^verbatim>\<open>tip\<close> of the enclosing function, not its argument \<^verbatim>\<open>t\<close>.
\<close>

definition tips_sort_key :: "PerformanceTip option \<Rightarrow> PerformanceTip \<Rightarrow> error + int" where
  "tips_sort_key tip t =
     (case tip of
        None \<Rightarrow> Inl NameError
      | Some tip' \<Rightarrow>
          Inr (case map_of impact_order (lower (pt_impact tip')) of None \<Rightarrow> 3 | Some v \<Rightarrow> v))"

text \<open>\<^verbatim>\<open>TechStackEngine.get_performance_tips\<close> on the store \<open>store\<close>.\<close>

definition get_performance_tips ::
  "PerformanceTip list \<Rightarrow> string \<Rightarrow> string option \<Rightarrow> string option
     \<Rightarrow> error + PerformanceTip list" where
  "get_performance_tips store stack impact effort =
     (let (tips, tip) = tips_loop (lower stack) impact effort store ([], None)
      in sort_by (tips_sort_key tip) tips)"

definition TechStackEngine_get_performance_tips ::
  "TechStackEngine \<Rightarrow> string \<Rightarrow> string option \<Rightarrow> string option
     \<Rightarrow> (error + PerformanceTip list) \<times> TechStackEngine" where
  "TechStackEngine_get_performance_tips self stack impact effort =
     (get_performance_tips (tech_performance_tips self) stack impact effort, self)"

section \<open>Component snippets (codegen.py)\<close>

text \<open>
  The members of \<^verbatim>\<open>Framework\<close> and \<^verbatim>\<open>ComponentCategory\<close> carry the prefixes
  \<open>FW_\<close> and \<open>CC_\<close> here, since some of their names are members of the enumerations
  above too.
\<close>

datatype Framework =
  FW_NEXTJS | FW_REACT | FW_VUE | FW_SVELTE | FW_HTML | FW_TAILWIND

fun Framework_value :: "Framework \<Rightarrow> string" where
  "Framework_value FW_NEXTJS = ''nextjs''"
| "Framework_value FW_REACT = ''react''"
| "Framework_value FW_VUE = ''vue''"
| "Framework_value FW_SVELTE = ''svelte''"
| "Framework_value FW_HTML = ''html''"
| "Framework_value FW_TAILWIND = ''tailwind''"

definition Framework_all :: "Framework list" where
  "Framework_all =
     [FW_NEXTJS, FW_REACT, FW_VUE, FW_SVELTE, FW_HTML, FW_TAILWIND]"

text \<open>\<^verbatim>\<open>Framework(v)\<close>\<close>

definition Framework_of_value :: "string \<Rightarrow> error + Framework" where
  "Framework_of_value v =
     (case find (\<lambda>c. Framework_value c = v) Framework_all of
        None \<Rightarrow> Inl ValueError | Some c \<Rightarrow> Inr c)"

datatype ComponentCategory =
  CC_BUTTON | CC_INPUT | CC_CARD | CC_MODAL | CC_NAVIGATION | CC_FORM | CC_FEEDBACK | CC_LAYOUT | CC_TYPOGRAPHY | CC_DATA_DISPLAY

fun ComponentCategory_value :: "ComponentCategory \<Rightarrow> string" where
  "ComponentCategory_value CC_BUTTON = ''button''"
| "ComponentCategory_value CC_INPUT = ''input''"
| "ComponentCategory_value CC_CARD = ''card''"
| "ComponentCategory_value CC_MODAL = ''modal''"
| "ComponentCategory_value CC_NAVIGATION = ''navigation''"
| "ComponentCategory_value CC_FORM = ''form''"
| "ComponentCategory_value CC_FEEDBACK = ''feedback''"
| "ComponentCategory_value CC_LAYOUT = ''layout''"
| "ComponentCategory_value CC_TYPOGRAPHY = ''typography''"
| "ComponentCategory_value CC_DATA_DISPLAY = ''data_display''"

definition ComponentCategory_all :: "ComponentCategory list" where
  "ComponentCategory_all =
     [CC_BUTTON, CC_INPUT, CC_CARD, CC_MODAL, CC_NAVIGATION, CC_FORM, CC_FEEDBACK, CC_LAYOUT, CC_TYPOGRAPHY, CC_DATA_DISPLAY]"

text \<open>\<^verbatim>\<open>ComponentCategory(v)\<close>\<close>

definition ComponentCategory_of_value :: "string \<Rightarrow> error + ComponentCategory" where
  "ComponentCategory_of_value v =
     (case find (\<lambda>c. ComponentCategory_value c = v) ComponentCategory_all of
        None \<Rightarrow> Inl ValueError | Some c \<Rightarrow> Inr c)"

record ComponentSnippet =
  cs_name :: string
  cs_category :: ComponentCategory
  cs_framework :: Framework
  cs_code :: string
  cs_dependencies :: "string list"
  cs_props :: "(string \<times> string) list"
  cs_preview :: string
  cs_description :: string

text \<open>The generator: its store is the list \<^verbatim>\<open>self.snippets\<close>.\<close>

record CodeGenerator =
  snippets :: "ComponentSnippet list"

text \<open>
  \<^verbatim>\<open>_parse_props\<close>: \<^verbatim>\<open>item.split(":", 1)\<close> cuts at the first colon; the dictionary
  keeps the position of a key that is assigned again.
\<close>

fun parse_props_loop :: "string list \<Rightarrow> (string \<times> string) list \<Rightarrow> (string \<times> string) list" where
  "parse_props_loop [] props = props"
| "parse_props_loop (item # items) props =
     (if CHR '':'' \<in> set item then
        let key = takeWhile (\<lambda>c. c \<noteq> CHR '':'') item;
            val = tl (dropWhile (\<lambda>c. c \<noteq> CHR '':'') item)
        in parse_props_loop items (dict_set props (strip key) (strip val))
      else parse_props_loop items props)"

definition parse_props :: "string \<Rightarrow> (string \<times> string) list" where
  "parse_props props_str = parse_props_loop (split_on CHR '';'' props_str) []"

text \<open>The body of the \<^verbatim>\<open>try\<close> in \<^verbatim>\<open>_load_snippets\<close>.\<close>

definition parse_snippet :: "row \<Rightarrow> error + ComponentSnippet loaded" where
  "parse_snippet row =
     bind_err (row_item row ''name'') (\<lambda>name.
     bind_err (row_item row ''category'') (\<lambda>cell.
     bind_err (enum_of_cell ComponentCategory_of_value cell) (\<lambda>category.
     bind_err (row_item row ''framework'') (\<lambda>cell'.
     bind_err (enum_of_cell Framework_of_value cell') (\<lambda>framework.
     bind_err (row_item row ''code'') (\<lambda>code.
     bind_err (row_item row ''dependencies'') (\<lambda>dependencies_cell.
     bind_err (str_method dependencies_cell) (\<lambda>dependencies.
     bind_err (row_item row ''props'') (\<lambda>props_cell.
     bind_err (str_method props_cell) (\<lambda>props.
       Inr (case (name, code, row_get row ''preview'' [], row_get row ''description'' []) of
              (Some n, Some c, Some p, Some d) \<Rightarrow>
                Typed \<lparr>cs_name = n, cs_category = category, cs_framework = framework,
                       cs_code = c, cs_dependencies = split_on CHR '';'' dependencies,
                       cs_props = parse_props props, cs_preview = p, cs_description = d\<rparr>
            | _ \<Rightarrow> With_None)))))))))))"

definition get_default_snippets :: "ComponentSnippet list" where
  "get_default_snippets =
     [\<lparr>cs_name = ''Button'', cs_category = CC_BUTTON, cs_framework = FW_REACT,
       cs_code =
         (''import React from '' @ [CHR 0x27] @ ''react'' @ [CHR 0x27] @
          ''\<newline>\<newline>interface ButtonProps {\<newline>  children: React.Reac'' @
          ''tNode\<newline>  onClick?: () => void\<newline>  variant?: '' @ [CHR 0x27] @
          ''primary'' @ [CHR 0x27] @ '' | '' @ [CHR 0x27] @ ''secondary'' @ [CHR 0x27] @
          ''\<newline>  size?: '' @ [CHR 0x27] @ ''sm'' @ [CHR 0x27] @ '' | '' @ [CHR 0x27] @
          ''md'' @ [CHR 0x27] @ '' | '' @ [CHR 0x27] @ ''lg'' @ [CHR 0x27] @
          ''\<newline>}\<newline>\<newline>export const Button: React.FC<ButtonProps> ='' @
          '' ({\<newline>  children,\<newline>  onClick,\<newline>  variant = '' @ [CHR 0x27] @
          ''primary'' @ [CHR 0x27] @ '',\<newline>  size = '' @ [CHR 0x27] @ ''md'' @
          [CHR 0x27] @ ''\<newline>}) => {\<newline>  const baseStyles = '' @ [CHR 0x27] @
          ''rounded-lg font-medium transition-colors'' @ [CHR 0x27] @
          ''\<newline>  const variants = {\<newline>    primary: '' @ [CHR 0x27] @
          ''bg-blue-500 hover:bg-blue-600 text-white'' @ [CHR 0x27] @
          '',\<newline>    secondary: '' @ [CHR 0x27] @
          ''bg-gray-200 hover:bg-gray-300 text-gray-800'' @ [CHR 0x27] @
          ''\<newline>  }\<newline>  const sizes = {\<newline>    sm: '' @ [CHR 0x27] @
          ''px-3 py-1.5 text-sm'' @ [CHR 0x27] @ '',\<newline>    md: '' @ [CHR 0x27] @
          ''px-4 py-2 text-base'' @ [CHR 0x27] @ '',\<newline>    lg: '' @ [CHR 0x27] @
          ''px-6 py-3 text-lg'' @ [CHR 0x27] @
          ''\<newline>  }\<newline>\<newline>  return (\<newline>    <button\<newline>   '' @
          ''   onClick={onClick}\<newline>      className={'' @ [CHR 0x60] @
          ''${baseStyles} ${variants[variant]} ${sizes[size]}'' @ [CHR 0x60] @
          ''}\<newline>    >\<newline>      {children}\<newline>    </button>\<newline> '' @
          '' )\<newline>}''),
       cs_dependencies = [''react''],
       cs_props =
         [(''children'', ''React.ReactNode''),
          (''onClick'', ''() => void''),
          (''variant'', ([CHR 0x27] @ ''primary'' @ [CHR 0x27] @ '' | '' @ [CHR 0x27] @ ''secondary'' @
             [CHR 0x27])),
          (''size'', ([CHR 0x27] @ ''sm'' @ [CHR 0x27] @ '' | '' @ [CHR 0x27] @ ''md'' @ [CHR 0x27] @
             '' | '' @ [CHR 0x27] @ ''lg'' @ [CHR 0x27]))],
       cs_preview = (''<Button variant='' @ [CHR 0x22] @ ''primary'' @ [CHR 0x22] @ '' size='' @
                     [CHR 0x22] @ ''md'' @ [CHR 0x22] @ ''>Click me</Button>''),
       cs_description = ''A versatile button component with multiple variants and sizes''\<rparr>,
      \<lparr>cs_name = ''Card'', cs_category = CC_CARD, cs_framework = FW_REACT,
       cs_code =
         (''import React from '' @ [CHR 0x27] @ ''react'' @ [CHR 0x27] @
          ''\<newline>\<newline>interface CardProps {\<newline>  children: React.ReactN'' @
          ''ode\<newline>  title?: string\<newline>  footer?: React.ReactNode\<newline>'' @
          ''}\<newline>\<newline>export const Card: React.FC<CardProps> = ({ children,'' @
          '' title, footer }) => {\<newline>  return (\<newline>    <div className='' @
          [CHR 0x22] @ ''bg-white rounded-lg shadow-md overflow-hidden'' @ [CHR 0x22] @
          ''>\<newline>      {title && (\<newline>        <div className='' @ [CHR 0x22] @
          ''px-6 py-4 border-b border-gray-200'' @ [CHR 0x22] @
          ''>\<newline>          <h3 className='' @ [CHR 0x22] @
          ''text-lg font-semibold text-gray-900'' @ [CHR 0x22] @
          ''>{title}</h3>\<newline>        </div>\<newline>      )}\<newline>      <div'' @
          '' className='' @ [CHR 0x22] @ ''px-6 py-4'' @ [CHR 0x22] @
          ''>\<newline>        {children}\<newline>      </div>\<newline>      {footer '' @
          ''&& (\<newline>        <div className='' @ [CHR 0x22] @
          ''px-6 py-4 bg-gray-50 border-t border-gray-200'' @ [CHR 0x22] @
          ''>\<newline>          {footer}\<newline>        </div>\<newline>      )}\<newline>'' @
          ''    </div>\<newline>  )\<newline>}''),
       cs_dependencies = [''react''],
       cs_props =
         [(''children'', ''React.ReactNode''),
          (''title'', ''string''),
          (''footer'', ''React.ReactNode'')],
       cs_preview = (''<Card title='' @ [CHR 0x22] @ ''Card Title'' @ [CHR 0x22] @
                     ''>Card content</Card>''),
       cs_description = ''A card component with optional header and footer''\<rparr>,
      \<lparr>cs_name = ''Input'', cs_category = CC_INPUT, cs_framework = FW_REACT,
       cs_code =
         (''import React from '' @ [CHR 0x27] @ ''react'' @ [CHR 0x27] @
          ''\<newline>\<newline>interface InputProps {\<newline>  type?: '' @ [CHR 0x27] @
          ''text'' @ [CHR 0x27] @ '' | '' @ [CHR 0x27] @ ''email'' @ [CHR 0x27] @ '' | '' @
          [CHR 0x27] @ ''password'' @ [CHR 0x27] @ '' | '' @ [CHR 0x27] @ ''number'' @
          [CHR 0x27] @
          ''\<newline>  placeholder?: string\<newline>  value: string\<newline>  onChan'' @
          ''ge: (value: string) => void\<newline>  label?: string\<newline>  error?: s'' @
          ''tring\<newline>}\<newline>\<newline>export const Input: React.FC<InputProps'' @
          ''> = ({\<newline>  type = '' @ [CHR 0x27] @ ''text'' @ [CHR 0x27] @
          '',\<newline>  placeholder,\<newline>  value,\<newline>  onChange,\<newline>  '' @
          ''label,\<newline>  error\<newline>}) => {\<newline>  return (\<newline>    <d'' @
          ''iv className='' @ [CHR 0x22] @ ''w-full'' @ [CHR 0x22] @
          ''>\<newline>      {label && (\<newline>        <label className='' @ [CHR 0x22] @
          ''block text-sm font-medium text-gray-700 mb-1'' @ [CHR 0x22] @
          ''>\<newline>          {label}\<newline>        </label>\<newline>      )}\<newline>'' @
          ''      <input\<newline>        type={type}\<newline>        placeholder={pl'' @
          ''aceholder}\<newline>        value={value}\<newline>        onChange={(e) ='' @
          ''> onChange(e.target.value)}\<newline>        className={'' @ [CHR 0x60] @
          ''w-full px-3 py-2 border rounded-lg focus:outline-none focus:ring-2 ${\<newline>'' @
          ''          error\<newline>            ? '' @ [CHR 0x27] @
          ''border-red-500 focus:ring-red-500'' @ [CHR 0x27] @ ''\<newline>            : '' @
          [CHR 0x27] @ ''border-gray-300 focus:ring-blue-500'' @ [CHR 0x27] @
          ''\<newline>        }'' @ [CHR 0x60] @
          ''}\<newline>      />\<newline>      {error && (\<newline>        <p classNam'' @
          ''e='' @ [CHR 0x22] @ ''mt-1 text-sm text-red-600'' @ [CHR 0x22] @
          ''>{error}</p>\<newline>      )}\<newline>    </div>\<newline>  )\<newline>}''),
       cs_dependencies = [''react''],
       cs_props =
         [(''type'', ([CHR 0x27] @ ''text'' @ [CHR 0x27] @ '' | '' @ [CHR 0x27] @ ''email'' @
             [CHR 0x27] @ '' | '' @ [CHR 0x27] @ ''password'' @ [CHR 0x27] @ '' | '' @
             [CHR 0x27] @ ''number'' @ [CHR 0x27])),
          (''placeholder'', ''string''),
          (''value'', ''string''),
          (''onChange'', ''(value: string) => void''),
          (''label'', ''string''),
          (''error'', ''string'')],
       cs_preview = (''<Input label='' @ [CHR 0x22] @ ''Email'' @ [CHR 0x22] @ '' value='' @
                     [CHR 0x22, CHR 0x22] @ '' onChange={() => {}} />''),
       cs_description = ''A text input with label and error handling''\<rparr>]"

text \<open>\<^verbatim>\<open>_load_snippets\<close>: \<open>None\<close> when \<^verbatim>\<open>components.csv\<close> does not exist.\<close>

definition load_snippets ::
  "(error + row) list option \<Rightarrow> error + ComponentSnippet loaded list \<times> error list" where
  "load_snippets csv =
     (case csv of None \<Rightarrow> Inr (map Typed get_default_snippets, [])
      | Some reader \<Rightarrow> load_rows parse_snippet reader ([], []))"

text \<open>The score \<^verbatim>\<open>search_components\<close> gives a snippet for the lower-cased query.\<close>

definition snippet_score :: "string \<Rightarrow> ComponentSnippet \<Rightarrow> int" where
  "snippet_score query_lower snippet =
     (let score = 0;
          score = (if str_in query_lower (lower (cs_name snippet)) then score + 10 else score);
          score = (if str_in query_lower (lower (cs_description snippet))
                   then score + 5 else score)
      in if str_in query_lower (ComponentCategory_value (cs_category snippet))
         then score + 3 else score)"

text \<open>The loop of \<^verbatim>\<open>search_components\<close>, with \<^verbatim>\<open>results\<close> as accumulator.\<close>

fun search_components_loop ::
  "string \<Rightarrow> string option \<Rightarrow> string option \<Rightarrow> ComponentSnippet list
     \<Rightarrow> (ComponentSnippet \<times> int) list \<Rightarrow> (ComponentSnippet \<times> int) list" where
  "search_components_loop query_lower framework category [] results = results"
| "search_components_loop query_lower framework category (snippet # rest) results =
     (if (case framework of None \<Rightarrow> False
          | Some f \<Rightarrow> f \<noteq> [] \<and> Framework_value (cs_framework snippet) \<noteq> lower f)
      then search_components_loop query_lower framework category rest results
      else if (case category of None \<Rightarrow> False
               | Some c \<Rightarrow> c \<noteq> [] \<and> ComponentCategory_value (cs_category snippet) \<noteq> lower c)
      then search_components_loop query_lower framework category rest results
      else
        let score = snippet_score query_lower snippet in
        if score > 0
        then search_components_loop query_lower framework category rest
               (results @ [(snippet, score)])
        else search_components_loop query_lower framework category rest results)"

text \<open>\<^verbatim>\<open>CodeGenerator.search_components\<close> on the store \<open>store\<close>: no result cap.\<close>

definition search_components ::
  "ComponentSnippet list \<Rightarrow> string \<Rightarrow> string option \<Rightarrow> string option
     \<Rightarrow> ComponentSnippet list" where
  "search_components store query framework category =
     map fst (sort_desc snd (search_components_loop (lower query) framework category store []))"

definition CodeGenerator_search_components ::
  "CodeGenerator \<Rightarrow> string \<Rightarrow> string option \<Rightarrow> string option
     \<Rightarrow> ComponentSnippet list \<times> CodeGenerator" where
  "CodeGenerator_search_components self query framework category =
     (search_components (snippets self) query framework category, self)"

section \<open>Selection predicates and example stores\<close>

text \<open>
  The records the filters of the loops let through, written as predicates: a practice
  for \<^verbatim>\<open>search_practices\<close>, a tip for \<^verbatim>\<open>get_performance_tips\<close>, a snippet for
  \<^verbatim>\<open>search_components\<close>.
\<close>

definition practice_selected ::
  "string \<Rightarrow> string option \<Rightarrow> string option \<Rightarrow> TechBestPractice \<Rightarrow> bool" where
  "practice_selected stack_lower query category p =
     (lower (TechStack_value (bp_stack p)) = stack_lower
      \<and> (case category of None \<Rightarrow> True
          | Some c \<Rightarrow> c = [] \<or> lower (PracticeCategory_value (bp_category p)) = lower c)
      \<and> (case query of None \<Rightarrow> True
          | Some q \<Rightarrow> q = [] \<or> 0 < practice_score (lower q) p))"

definition tip_selected ::
  "string \<Rightarrow> string option \<Rightarrow> string option \<Rightarrow> PerformanceTip \<Rightarrow> bool" where
  "tip_selected stack_lower impact effort t =
     (lower (TechStack_value (pt_stack t)) = stack_lower
      \<and> (case impact of None \<Rightarrow> True | Some i \<Rightarrow> i = [] \<or> lower (pt_impact t) = lower i)
      \<and> (case effort of None \<Rightarrow> True | Some e \<Rightarrow> e = [] \<or> lower (pt_effort t) = lower e))"

definition snippet_selected ::
  "string \<Rightarrow> string option \<Rightarrow> string option \<Rightarrow> ComponentSnippet \<Rightarrow> bool" where
  "snippet_selected query_lower framework category s =
     ((case framework of None \<Rightarrow> True
       | Some f \<Rightarrow> f = [] \<or> Framework_value (cs_framework s) = lower f)
      \<and> (case category of None \<Rightarrow> True
          | Some c \<Rightarrow> c = [] \<or> ComponentCategory_value (cs_category s) = lower c)
      \<and> 0 < snippet_score query_lower s)"

text \<open>
  Two practices for React, as a \<^verbatim>\<open>tech_practices.csv\<close> could list them: the query
  "code splitting" occurs in the benefits of the first only, and in the topic and the
  practice text of the second.
\<close>

definition two_practices :: "TechBestPractice list" where
  "two_practices =
     [\<lparr>bp_stack = REACT, bp_category = PC_PERFORMANCE, bp_topic = ''Lazy Routes'',
       bp_practice = ''Load each route on demand'',
       bp_anti_pattern = ''Import every page in the entry file'',
       bp_code_example = ''const Page = React.lazy(load)'',
       bp_benefits = ''Enables code splitting'', bp_complexity = ''low''\<rparr>,
      \<lparr>bp_stack = REACT, bp_category = PC_PERFORMANCE, bp_topic = ''Code Splitting'',
       bp_practice = ''Use React.lazy and Suspense for route-based code splitting'',
       bp_anti_pattern = ''Load entire application bundle upfront'',
       bp_code_example = ''const Dashboard = React.lazy(load)'',
       bp_benefits = ''Faster initial load, better user experience'',
       bp_complexity = ''medium''\<rparr>]"

text \<open>Six button snippets, as a \<^verbatim>\<open>components.csv\<close> could list them.\<close>

definition six_buttons :: "ComponentSnippet list" where
  "six_buttons =
     map (\<lambda>name. \<lparr>cs_name = name, cs_category = CC_BUTTON, cs_framework = FW_REACT,
                    cs_code = ''export const Button = (props) => <button {...props} />'',
                    cs_dependencies = [''react''], cs_props = [(''children'', ''React.ReactNode'')],
                    cs_preview = ''<Button>Click me</Button>'',
                    cs_description = ''A button''\<rparr>)
       [''Primary Button'', ''Secondary Button'', ''Icon Button'', ''Link Button'',
        ''Ghost Button'', ''Danger Button'']"

text \<open>
  The decision table of \<^verbatim>\<open>recommend\<close> as a table: the names to try, in order, for a
  lower-cased goal and product type; and the look-up of the first of them that the store
  holds, names compared in lower case.
\<close>

definition recommend_table :: "string \<Rightarrow> string \<Rightarrow> string list" where
  "recommend_table goal_lower product_lower =
     (if goal_lower \<in> {''signup'', ''register'', ''newsletter''}
        then [''Minimal Single CTA'', ''Hero + Features'']
      else if goal_lower \<in> {''purchase'', ''buy'', ''order''}
        then [''Product Showcase'', ''Hero + Features'']
      else if goal_lower \<in> {''demo'', ''trial''}
        then [''Interactive Demo'', ''Video-First'']
      else if str_in ''pricing'' goal_lower
        then [''Pricing Preview'']
      else if product_lower \<in> {''b2b'', ''enterprise'', ''saas''}
        then [''Comparison Table'', ''Trust Badges'']
      else [''Hero + Features''])"

fun first_named :: "LandingPattern list \<Rightarrow> string list \<Rightarrow> LandingPattern option" where
  "first_named ps [] = None"
| "first_named ps (name # names) =
     (case find (\<lambda>p. lower (lp_name p) = lower name) ps of
        Some p \<Rightarrow> Some p
      | None \<Rightarrow> first_named ps names)"

text \<open>
  What a row contributes when it is loaded: the object its parse builds, or the exception
  its parse raises. And what a reader contributes: the first exception it raises, and
  the rows it yields.
\<close>

definition parsed :: "(row \<Rightarrow> error + 'a) \<Rightarrow> row \<Rightarrow> 'a option" where
  "parsed parse row = (case parse row of Inr x \<Rightarrow> Some x | Inl e \<Rightarrow> None)"

definition raised :: "(row \<Rightarrow> error + 'a) \<Rightarrow> row \<Rightarrow> error option" where
  "raised parse row = (case parse row of Inr x \<Rightarrow> None | Inl e \<Rightarrow> Some e)"

fun reader_error :: "(error + row) list \<Rightarrow> error option" where
  "reader_error [] = None"
| "reader_error (Inl e # reader) = Some e"
| "reader_error (Inr row # reader) = reader_error reader"

fun rows_of :: "(error + row) list \<Rightarrow> row list" where
  "rows_of [] = []"
| "rows_of (Inl e # reader) = rows_of reader"
| "rows_of (Inr row # reader) = row # rows_of reader"

text \<open>
  The rows a loader keeps. \<open>has_columns\<close>: the names are names of the header.
  \<open>enum_cell\<close>: the row has a cell under the name, and it is a value of the enumeration.
  \<open>str_cells\<close>: the row has no missing cell under any of the names (a name that the
  header lacks counts as given where \<^verbatim>\<open>row.get\<close> supplies a default).
\<close>

definition has_columns :: "row \<Rightarrow> string list \<Rightarrow> bool" where
  "has_columns row ks = list_all (\<lambda>k. row k \<noteq> None) ks"

definition enum_cell :: "row \<Rightarrow> string \<Rightarrow> string list \<Rightarrow> bool" where
  "enum_cell row k values =
     (case row k of None \<Rightarrow> False | Some None \<Rightarrow> False | Some (Some v) \<Rightarrow> v \<in> set values)"

definition str_cells :: "row \<Rightarrow> string list \<Rightarrow> bool" where
  "str_cells row ks = list_all (\<lambda>k. row k \<noteq> Some None) ks"

definition guideline_row_ok :: "row \<Rightarrow> bool" where
  "guideline_row_ok row =
     (has_columns row
        [''domain'', ''topic'', ''best_practice'', ''anti_pattern'', ''example'', ''impact'',
         ''complexity'']
      \<and> enum_cell row ''domain'' (map (\<lambda>(n, d, v). v) UXDomain_members))"

text \<open>\<^verbatim>\<open>_parse_pattern\<close> takes a category that the header lacks as "classic".\<close>

definition pattern_row_ok :: "row \<Rightarrow> bool" where
  "pattern_row_ok row =
     (has_columns row [''name'', ''description'']
      \<and> str_cells row [''sections'', ''best_for'']
      \<and> (case row ''category'' of None \<Rightarrow> True
          | Some cell \<Rightarrow> enum_cell row ''category'' (map LandingCategory_value LandingCategory_all)))"

definition snippet_row_ok :: "row \<Rightarrow> bool" where
  "snippet_row_ok row =
     (has_columns row [''name'', ''category'', ''framework'', ''code'', ''dependencies'', ''props'']
      \<and> str_cells row [''dependencies'', ''props'']
      \<and> enum_cell row ''category'' (map ComponentCategory_value ComponentCategory_all)
      \<and> enum_cell row ''framework'' (map Framework_value Framework_all))"

text \<open>
  A \<^verbatim>\<open>ux_guidelines.csv\<close> with the seven columns and four lines: the second has a domain
  that is no member of \<^verbatim>\<open>UXDomain\<close>, the third stops after the topic.
\<close>

definition guideline_columns :: "string list" where
  "guideline_columns =
     [''domain'', ''topic'', ''best_practice'', ''anti_pattern'', ''example'', ''impact'',
      ''complexity'']"

definition guideline_lines :: "string list list" where
  "guideline_lines =
     [[''Forms'', ''Labels'', ''Label every input'', ''Placeholder as label'',
       ''Email label above the field'', ''Better for all users'', ''low''],
      [''Security'', ''Passwords'', ''Show strength meter'', ''Hidden rules'',
       ''Meter under the field'', ''Fewer resets'', ''medium''],
      [''Loading'', ''Spinners''],
      [''Navigation'', ''Breadcrumbs'', ''Show the path'', ''Deep menus only'',
       ''Home > Docs > API'', ''Better orientation'', ''low'']]"

definition guideline_reader :: "(error + row) list" where
  "guideline_reader = map (\<lambda>cells. Inr (dict_row guideline_columns cells)) guideline_lines"

text \<open>
  The same file cut off by a byte that is not UTF-8 in its third line: the reader
  yields two rows, then raises.
\<close>

definition broken_reader :: "(error + row) list" where
  "broken_reader = take 2 guideline_reader @ [Inl UnicodeDecodeError]"

text \<open>
  The steps of \<^verbatim>\<open>get_quick_wins\<close>: the guidelines its first loop takes, and the
  recommendation it builds from one. The groups of its dictionary: every recommendation
  filed under a domain has that domain.
\<close>

definition wins :: "UXGuideline \<Rightarrow> bool" where
  "wins g = (ux_complexity g = ''low'' \<and> determine_user_impact g \<in> set [''high'', ''medium''])"

definition quick_win :: "UXGuideline \<Rightarrow> UXRecommendation" where
  "quick_win g =
     \<lparr>r_guideline = g, r_priority = ''high'', r_implementation_effort = ''low'',
      r_user_impact = determine_user_impact g, r_resources = get_resources g\<rparr>"

definition groups_ok ::
  "(UXRecommendation \<Rightarrow> bool) \<Rightarrow> (UXDomain \<times> UXRecommendation list) list \<Rightarrow> bool" where
  "groups_ok P groups =
     (\<forall>d rs. map_of groups d = Some rs \<longrightarrow>
        (\<forall>r\<in>set rs. P r \<and> ux_domain (r_guideline r) = d))"

text \<open>
  What \<^verbatim>\<open>get_quick_wins\<close> builds from a guideline of the store \<open>gs\<close>: the guideline has
  complexity "low", the user impact is the derived one and is "high" or "medium".
\<close>

definition is_quick_win :: "UXGuideline list \<Rightarrow> UXRecommendation \<Rightarrow> bool" where
  "is_quick_win gs r =
     (r_guideline r \<in> set gs
      \<and> ux_complexity (r_guideline r) = ''low''
      \<and> r_user_impact r = determine_user_impact (r_guideline r)
      \<and> r_user_impact r \<in> {''high'', ''medium''}
      \<and> r_priority r = ''high''
      \<and> r_implementation_effort r = ''low''
      \<and> r_resources r = get_resources (r_guideline r))"

text \<open>
  Four guidelines, as a \<^verbatim>\<open>ux_guidelines.csv\<close> could list them: three of low complexity
  with a high or medium impact, two of them in the same domain.
\<close>

definition four_guidelines :: "UXGuideline list" where
  "four_guidelines =
     [\<lparr>ux_domain = FORMS, ux_topic = ''Labels'', ux_best_practice = ''Label every input'',
       ux_anti_pattern = ''Placeholder as label'', ux_example = ''Email label above the field'',
       ux_impact = ''Better for all users'', ux_complexity = ''low''\<rparr>,
      \<lparr>ux_domain = FORMS, ux_topic = ''Errors'', ux_best_practice = ''Explain the error inline'',
       ux_anti_pattern = ''Alert boxes'', ux_example = ''Message under the field'',
       ux_impact = ''Improved completion'', ux_complexity = ''low''\<rparr>,
      \<lparr>ux_domain = NAVIGATION, ux_topic = ''Breadcrumbs'', ux_best_practice = ''Show the path'',
       ux_anti_pattern = ''Deep menus only'', ux_example = ''Home > Docs > API'',
       ux_impact = ''Better orientation'', ux_complexity = ''low''\<rparr>,
      \<lparr>ux_domain = LOADING, ux_topic = ''Spinners'', ux_best_practice = ''Show progress'',
       ux_anti_pattern = ''Blank screen'', ux_example = ''Progress bar'',
       ux_impact = ''Essential feedback'', ux_complexity = ''high''\<rparr>]"

section \<open>Lists, slices and sorting\<close>

lemma slice_to_prefix: "prefix (slice_to n xs) xs"
  by (simp add: slice_to_def take_is_prefix)

lemma set_slice_to: "set (slice_to n xs) \<subseteq> set xs"
  by (simp add: slice_to_def set_take_subset)

lemma length_slice_to: "0 \<le> n \<Longrightarrow> length (slice_to n xs) \<le> nat n"
  by (simp add: slice_to_def)

lemma sorted_wrt_prefix: "prefix xs ys \<Longrightarrow> sorted_wrt P ys \<Longrightarrow> sorted_wrt P xs"
  by (auto simp: prefix_def sorted_wrt_append)

lemma prefix_filter: "prefix xs ys \<Longrightarrow> prefix (filter P xs) (filter P ys)"
  by (auto simp: prefix_def)

lemma prefix_map: "prefix xs ys \<Longrightarrow> prefix (map f xs) (map f ys)"
  by (auto simp: prefix_def)

lemma sorted_sort_desc: "sorted_wrt (\<ge>) (map k (sort_desc k xs))"
proof -
  have "sorted (map (\<lambda>x. - k x) (sort_desc k xs))"
    by (simp add: sort_desc_def)
  then show ?thesis
    by (simp add: sorted_wrt_map sorted_map)
qed

lemma set_sort_desc: "set (sort_desc k xs) = set xs"
  by (simp add: sort_desc_def)

lemma length_sort_desc: "length (sort_desc k xs) = length xs"
  by (simp add: sort_desc_def)

lemma sort_desc_stable: "filter (\<lambda>x. k x = v) (sort_desc k xs) = filter (\<lambda>x. k x = v) xs"
proof -
  have "filter (\<lambda>x. - k x = - v) (sort_key (\<lambda>x. - k x) xs) = filter (\<lambda>x. - k x = - v) xs"
    by (rule sort_key_stable)
  then show ?thesis by (simp add: sort_desc_def)
qed

section \<open>Properties of the UX engine\<close>

lemma UXDomain_attr_A11y: "UXDomain_attr ''A11y'' = Inl AttributeError"
  by (simp add: UXDomain_attr_def UXDomain_members_def)

lemma determine_priority_raises: "determine_priority g = Inl AttributeError"
  by (simp add: determine_priority_def UXDomain_attr_A11y)

lemma ux_search_loop_eq:
  "ux_search_loop q d gs acc =
     (if \<exists>g\<in>set gs. \<not> ux_filtered_out d g \<and> 0 < ux_score q g then Inl AttributeError
      else Inr acc)"
  by (induction gs arbitrary: acc) (simp_all add: Let_def determine_priority_raises)

lemma ux_search_returns_nothing: "ux_search gs query d n = Inr rs \<Longrightarrow> rs = []"
  by (auto simp: ux_search_def ux_search_loop_eq sort_desc_def slice_to_def split: if_splits)

section \<open>The loops as list functions\<close>

lemma landing_search_loop_eq:
  "landing_search_loop q ps acc =
     acc @ map (\<lambda>p. (p, pattern_score q p)) (filter (\<lambda>p. 0 < pattern_score q p) ps)"
  by (induction ps arbitrary: acc) (simp_all add: Let_def)

lemma search_components_loop_eq:
  "search_components_loop q fw cat store acc =
     acc @ map (\<lambda>s. (s, snippet_score q s)) (filter (snippet_selected q fw cat) store)"
  by (induction store arbitrary: acc)
     (auto simp: Let_def snippet_selected_def split: option.splits)

lemma practice_score_nonneg: "0 \<le> practice_score q p"
  by (simp add: practice_score_def Let_def)

lemma practice_score_pos_iff: "(practice_score q p = 0) = (\<not> 0 < practice_score q p)"
  using practice_score_nonneg [of q p] by linarith

lemma search_practices_loop_eq:
  "search_practices_loop sl query cat ps acc = acc @ filter (practice_selected sl query cat) ps"
  by (induction ps arbitrary: acc)
     (auto simp: practice_selected_def practice_score_pos_iff split: option.splits)

lemma tips_loop_eq:
  "tips_loop sl i e ts (tips, tip) =
     (tips @ filter (tip_selected sl i e) ts, if ts = [] then tip else Some (last ts))"
  by (induction ts arbitrary: tips tip)
     (auto simp: tip_selected_def split: option.splits)

lemma eval_keys_const: "eval_keys (\<lambda>t. Inr c) xs = Inr (replicate (length xs) c)"
  by (induction xs) simp_all

lemma sort_by_const: "sort_by (\<lambda>t. Inr c) xs = Inr xs"
proof -
  have "sorted (map fst (zip (replicate (length xs) c) xs))"
    by simp
  then have "sort_key fst (zip (replicate (length xs) c) xs) = zip (replicate (length xs) c) xs"
    by (rule sort_key_id_if_sorted)
  then show ?thesis
    by (simp add: sort_by_def eval_keys_const)
qed

lemma sort_by_Nil: "sort_by k [] = Inr []"
  by (simp add: sort_by_def)

section \<open>Scored searches\<close>

lemma prefix_same_length: "prefix xs ys \<Longrightarrow> length xs = length ys \<Longrightarrow> xs = ys"
  by (auto simp: prefix_def)

lemma scored_prefix_sorted:
  assumes "\<forall>x\<in>set L. snd x = f (fst x)" and "prefix Y (sort_desc snd L)"
  shows "sorted_wrt (\<ge>) (map f (map fst Y))"
proof -
  have sub: "set Y \<subseteq> set L"
    using assms(2) set_mono_prefix set_sort_desc by fastforce
  have eq: "map f (map fst Y) = map snd Y"
    using sub assms(1) by fastforce
  have "sorted_wrt (\<ge>) (map snd Y)"
    using assms(2) sorted_sort_desc [of snd L] prefix_map sorted_wrt_prefix by blast
  then show ?thesis
    unfolding eq .
qed

lemma landing_search_sorted:
  "sorted_wrt (\<ge>) (map (pattern_score (lower query)) (landing_search ps query n))"
  unfolding landing_search_def
  by (rule scored_prefix_sorted [where L = "landing_search_loop (lower query) ps []"])
     (simp_all add: landing_search_loop_eq slice_to_prefix)

lemma landing_search_positive:
  "p \<in> set (landing_search ps query n) \<Longrightarrow> 0 < pattern_score (lower query) p"
proof -
  assume "p \<in> set (landing_search ps query n)"
  then have "p \<in> fst ` set (sort_desc snd (landing_search_loop (lower query) ps []))"
    using set_slice_to by (fastforce simp: landing_search_def)
  then show ?thesis
    by (auto simp: set_sort_desc landing_search_loop_eq)
qed

lemma search_components_sorted:
  "sorted_wrt (\<ge>) (map (snippet_score (lower query)) (search_components store query fw cat))"
  unfolding search_components_def
  by (rule scored_prefix_sorted
        [where L = "search_components_loop (lower query) fw cat store []"])
     (simp_all add: search_components_loop_eq)

lemma search_components_positive:
  "s \<in> set (search_components store query fw cat) \<Longrightarrow> 0 < snippet_score (lower query) s"
  by (auto simp: search_components_def set_sort_desc search_components_loop_eq snippet_selected_def)

lemma search_practices_eq:
  "map sr_practice (search_practices bps stack q cat n) =
     slice_to n (filter (practice_selected (lower stack) q cat) bps)"
  by (simp add: search_practices_def search_practices_loop_eq stack_recommendation_def comp_def)

lemma length_landing_search: "0 \<le> n \<Longrightarrow> length (landing_search ps query n) \<le> nat n"
  by (simp add: landing_search_def length_slice_to)

lemma length_search_practices: "0 \<le> n \<Longrightarrow> length (search_practices bps stack q cat n) \<le> nat n"
  by (simp add: search_practices_def length_slice_to)

lemma length_search_components:
  "length (search_components store query fw cat) =
     length (filter (snippet_selected (lower query) fw cat) store)"
  by (simp add: search_components_def length_sort_desc search_components_loop_eq)

lemma scored_stable:
  assumes "\<forall>x\<in>set L. snd x = f (fst x)" and "prefix Y (sort_desc snd L)"
  shows "prefix (filter (\<lambda>p. f p = k) (map fst Y)) (filter (\<lambda>p. f p = k) (map fst L))"
proof -
  have sub: "set Y \<subseteq> set L"
    using assms(2) set_mono_prefix set_sort_desc by fastforce
  have eq: "filter (\<lambda>p. f p = k) (map fst Z) = map fst (filter (\<lambda>x. snd x = k) Z)"
    if "set Z \<subseteq> set L" for Z
  proof -
    have *: "snd x = f (fst x)" if "x \<in> set Z" for x
      using that \<open>set Z \<subseteq> set L\<close> assms(1) by blast
    have "filter (\<lambda>x. f (fst x) = k) Z = filter (\<lambda>x. snd x = k) Z"
      by (intro filter_cong refl) (simp add: *)
    then show ?thesis by (simp add: filter_map comp_def)
  qed
  have a: "filter (\<lambda>p. f p = k) (map fst Y) = map fst (filter (\<lambda>x. snd x = k) Y)"
    using sub by (rule eq)
  have b: "filter (\<lambda>p. f p = k) (map fst L) = map fst (filter (\<lambda>x. snd x = k) L)"
    by (rule eq) simp
  have "prefix (filter (\<lambda>x. snd x = k) Y) (filter (\<lambda>x. snd x = k) (sort_desc snd L))"
    using assms(2) by (rule prefix_filter)
  then have "prefix (filter (\<lambda>x. snd x = k) Y) (filter (\<lambda>x. snd x = k) L)"
    by (simp add: sort_desc_stable)
  then show ?thesis
    unfolding a b by (rule prefix_map)
qed

lemma landing_search_stable:
  "prefix (filter (\<lambda>p. pattern_score (lower query) p = k) (landing_search ps query n))
          (filter (\<lambda>p. pattern_score (lower query) p = k) ps)"
proof -
  let ?f = "pattern_score (lower query)"
  let ?L = "landing_search_loop (lower query) ps []"
  have "prefix (filter (\<lambda>p. ?f p = k) (landing_search ps query n))
               (filter (\<lambda>p. ?f p = k) (map fst ?L))"
    unfolding landing_search_def
    by (rule scored_stable) (simp_all add: landing_search_loop_eq slice_to_prefix)
  moreover have "filter (\<lambda>p. ?f p = k) (map fst ?L) =
      (if 0 < k then filter (\<lambda>p. ?f p = k) ps else [])"
    by (auto simp: landing_search_loop_eq comp_def intro: filter_cong)
  ultimately show ?thesis
    by (auto split: if_splits)
qed

lemma search_components_stable:
  "filter (\<lambda>s. snippet_score (lower query) s = k) (search_components store query fw cat) =
   filter (\<lambda>s. snippet_score (lower query) s = k)
     (filter (snippet_selected (lower query) fw cat) store)"
proof -
  let ?f = "snippet_score (lower query)"
  let ?L = "search_components_loop (lower query) fw cat store []"
  have L: "map fst ?L = filter (snippet_selected (lower query) fw cat) store"
    by (simp add: search_components_loop_eq comp_def)
  have "prefix (filter (\<lambda>s. ?f s = k) (map fst (sort_desc snd ?L)))
               (filter (\<lambda>s. ?f s = k) (map fst ?L))"
    by (rule scored_stable) (simp_all add: search_components_loop_eq)
  moreover have "length (filter (\<lambda>s. ?f s = k) (map fst (sort_desc snd ?L)))
       = length (filter (\<lambda>s. ?f s = k) (map fst ?L))"
  proof -
    have "mset (map fst (sort_desc snd ?L)) = mset (map fst ?L)"
      by (simp add: sort_desc_def)
    then have "mset (filter (\<lambda>s. ?f s = k) (map fst (sort_desc snd ?L)))
        = mset (filter (\<lambda>s. ?f s = k) (map fst ?L))"
      by (simp only: mset_filter)
    then show ?thesis by (rule mset_eq_length)
  qed
  ultimately have "filter (\<lambda>s. ?f s = k) (map fst (sort_desc snd ?L))
      = filter (\<lambda>s. ?f s = k) (map fst ?L)"
    by (rule prefix_same_length)
  then show ?thesis
    by (simp only: search_components_def L)
qed


section \<open>Pattern look-up\<close>

lemma get_pattern_find: "get_pattern ps name = find (\<lambda>p. lower (lp_name p) = lower name) ps"
  by (induction ps) simp_all

lemma get_pattern_first_named: "get_pattern ps a = first_named ps [a]"
  by (simp add: get_pattern_find split: option.splits)

lemma or_else_first_named:
  "or_else (first_named ps [a]) (first_named ps [b]) = first_named ps [a, b]"
  by (simp add: or_else_def split: option.splits)

section \<open>Loading\<close>

lemma load_rows_eq:
  "load_rows parse reader (store, warnings) =
     (case reader_error reader of
        Some e \<Rightarrow> Inl e
      | None \<Rightarrow> Inr (store @ List.map_filter (parsed parse) (rows_of reader),
                    warnings @ List.map_filter (raised parse) (rows_of reader)))"
proof (induction reader arbitrary: store warnings)
  case Nil
  show ?case by (simp add: List.map_filter_simps)
next
  case (Cons item reader)
  show ?case
  proof (cases item)
    case (Inl e)
    then show ?thesis by simp
  next
    case (Inr row)
    show ?thesis
    proof (cases "parse row")
      case (Inl e)
      then have "parsed parse row = None" "raised parse row = Some e"
        by (simp_all add: parsed_def raised_def)
      with Inl Inr show ?thesis
        by (simp add: Cons List.map_filter_simps split: option.splits)
    next
      case parse: (Inr entry)
      then have "parsed parse row = Some entry" "raised parse row = None"
        by (simp_all add: parsed_def raised_def)
      with parse Inr show ?thesis
        by (simp add: Cons List.map_filter_simps split: option.splits)
    qed
  qed
qed

lemma bind_err_ok: "(\<exists>y. bind_err m f = Inr y) = (\<exists>x. m = Inr x \<and> (\<exists>y. f x = Inr y))"
  by (cases m) (simp_all add: bind_err_def)

lemma bind_err_Inr: "(bind_err m f = Inr y) = (\<exists>x. m = Inr x \<and> f x = Inr y)"
  by (cases m) (simp_all add: bind_err_def)

lemma parsed_None_ok: "(parsed parse row = None) = (\<not> (\<exists>x. parse row = Inr x))"
  by (cases "parse row") (simp_all add: parsed_def)

lemma parsed_Some: "(parsed parse row = Some x) = (parse row = Inr x)"
  by (cases "parse row") (simp_all add: parsed_def)

lemma row_item_Inr: "(row_item row k = Inr cell) = (row k = Some cell)"
  by (simp add: row_item_def split: option.splits)

lemma str_method_Inr: "(str_method cell = Inr s) = (cell = Some s)"
  by (simp add: str_method_def split: option.splits)

lemma find_value:
  "(\<exists>c. (case find (\<lambda>c. f c = v) xs of None \<Rightarrow> Inl ValueError | Some c \<Rightarrow> Inr c) = Inr c)
     \<longleftrightarrow> v \<in> f ` set xs"
  by (induction xs) auto

lemma UXDomain_of_value_ok:
  "(\<exists>d. UXDomain_of_value v = Inr d) \<longleftrightarrow> v \<in> set (map (\<lambda>(n, d, w). w) UXDomain_members)"
  by (auto simp: UXDomain_of_value_def UXDomain_members_def split: option.splits)

lemma of_value_ok:
  "(\<exists>c. LandingCategory_of_value v = Inr c) =
     (v \<in> set (map LandingCategory_value LandingCategory_all))"
  "(\<exists>c. Framework_of_value v = Inr c) = (v \<in> set (map Framework_value Framework_all))"
  "(\<exists>c. ComponentCategory_of_value v = Inr c) =
     (v \<in> set (map ComponentCategory_value ComponentCategory_all))"
  by (simp_all add: LandingCategory_of_value_def Framework_of_value_def
        ComponentCategory_of_value_def find_value)

lemma enum_of_cell_ok:
  "(\<exists>c. enum_of_cell of_value cell = Inr c) = (\<exists>v. cell = Some v \<and> (\<exists>c. of_value v = Inr c))"
  by (cases cell) (simp_all add: enum_of_cell_def)

lemma parsed_guideline_None: "(parsed parse_guideline row = None) = (\<not> guideline_row_ok row)"
  unfolding parsed_None_ok
  by (auto simp: parse_guideline_def bind_err_ok row_item_Inr enum_of_cell_ok UXDomain_of_value_ok
        guideline_row_ok_def has_columns_def enum_cell_def simp del: set_map split: option.splits)

lemma parsed_guideline_With_None:
  "(parsed parse_guideline row = Some With_None) =
     (guideline_row_ok row
      \<and> \<not> str_cells row
            [''topic'', ''best_practice'', ''anti_pattern'', ''example'', ''impact'',
             ''complexity''])"
proof (cases "guideline_row_ok row")
  case False
  then have "parsed parse_guideline row = None"
    by (simp add: parsed_guideline_None)
  with False show ?thesis by simp
next
  case True
  then obtain v t b a e i c where cells:
    "row ''domain'' = Some (Some v)" "row ''topic'' = Some t" "row ''best_practice'' = Some b"
    "row ''anti_pattern'' = Some a" "row ''example'' = Some e" "row ''impact'' = Some i"
    "row ''complexity'' = Some c"
    and v: "v \<in> set (map (\<lambda>(n, d, w). w) UXDomain_members)"
    by (auto simp: guideline_row_ok_def has_columns_def enum_cell_def simp del: set_map
          split: option.splits)
  from v obtain d where d: "UXDomain_of_value v = Inr d"
    using UXDomain_of_value_ok by blast
  have "parse_guideline row =
      Inr (case (t, b, a, e, i, c) of
             (Some t, Some b, Some a, Some e, Some i, Some c) \<Rightarrow>
               Typed \<lparr>ux_domain = d, ux_topic = t, ux_best_practice = b, ux_anti_pattern = a,
                      ux_example = e, ux_impact = i, ux_complexity = c\<rparr>
           | _ \<Rightarrow> With_None)"
    by (simp add: parse_guideline_def bind_err_def row_item_def enum_of_cell_def cells d)
  with True cells show ?thesis
    by (cases t; cases b; cases a; cases e; cases i; cases c)
       (simp_all add: parsed_def str_cells_def)
qed

lemma classic_is_category: "''classic'' \<in> set (map LandingCategory_value LandingCategory_all)"
  by (simp add: LandingCategory_all_def)

lemma parsed_pattern_None: "(parsed parse_pattern row = None) = (\<not> pattern_row_ok row)"
  unfolding parsed_None_ok
  using classic_is_category
  by (auto simp: parse_pattern_def Let_def bind_err_ok row_item_Inr str_method_Inr enum_of_cell_ok
        of_value_ok pattern_row_ok_def has_columns_def enum_cell_def str_cells_def row_get_def
        simp del: set_map split: option.splits)

lemma parsed_snippet_None: "(parsed parse_snippet row = None) = (\<not> snippet_row_ok row)"
  unfolding parsed_None_ok
  by (auto simp: parse_snippet_def bind_err_ok row_item_Inr str_method_Inr enum_of_cell_ok
        of_value_ok snippet_row_ok_def has_columns_def enum_cell_def str_cells_def
        simp del: set_map split: option.splits)


lemma parsed_pattern_With_None:
  "(parsed parse_pattern row = Some With_None) =
     (pattern_row_ok row \<and> \<not> str_cells row [''name'', ''description'', ''complexity''])"
proof (cases "pattern_row_ok row")
  case False
  then have "parsed parse_pattern row = None"
    by (simp add: parsed_pattern_None)
  with False show ?thesis by simp
next
  case True
  then have "\<exists>x. parse_pattern row = Inr x"
    using parsed_pattern_None [of row] by (simp add: parsed_None_ok)
  then obtain s b n v d where steps:
    "str_method (row_get row ''sections'' []) = Inr s"
    "str_method (row_get row ''best_for'' []) = Inr b"
    "row_item row ''name'' = Inr n"
    "enum_of_cell LandingCategory_of_value (row_get row ''category'' ''classic'') = Inr v"
    "row_item row ''description'' = Inr d"
    by (auto simp: parse_pattern_def Let_def bind_err_Inr)
  then have cells: "row ''name'' = Some n" "row ''description'' = Some d"
    by (simp_all add: row_item_Inr)
  have "(parse_pattern row = Inr With_None) =
          (n = None \<or> d = None \<or> row_get row ''complexity'' ''medium'' = None)"
    by (simp add: parse_pattern_def Let_def bind_err_def steps split: option.splits)
  with True cells show ?thesis
    by (cases "row ''complexity''") (auto simp: parsed_Some str_cells_def row_get_def)
qed

lemma parsed_snippet_With_None:
  "(parsed parse_snippet row = Some With_None) =
     (snippet_row_ok row \<and> \<not> str_cells row [''name'', ''code'', ''preview'', ''description''])"
proof (cases "snippet_row_ok row")
  case False
  then have "parsed parse_snippet row = None"
    by (simp add: parsed_snippet_None)
  with False show ?thesis by simp
next
  case True
  then have "\<exists>x. parse_snippet row = Inr x"
    using parsed_snippet_None [of row] by (simp add: parsed_None_ok)
  then obtain n c1 v1 c2 v2 c dc ds pc ps where steps:
    "row_item row ''name'' = Inr n"
    "row_item row ''category'' = Inr c1"
    "enum_of_cell ComponentCategory_of_value c1 = Inr v1"
    "row_item row ''framework'' = Inr c2"
    "enum_of_cell Framework_of_value c2 = Inr v2"
    "row_item row ''code'' = Inr c"
    "row_item row ''dependencies'' = Inr dc"
    "str_method dc = Inr ds"
    "row_item row ''props'' = Inr pc"
    "str_method pc = Inr ps"
    by (auto simp: parse_snippet_def bind_err_Inr)
  then have cells: "row ''name'' = Some n" "row ''code'' = Some c"
    by (simp_all add: row_item_Inr)
  have "(parse_snippet row = Inr With_None) =
          (n = None \<or> c = None \<or> row_get row ''preview'' [] = None
           \<or> row_get row ''description'' [] = None)"
    by (simp add: parse_snippet_def bind_err_def steps split: option.splits)
  with True cells show ?thesis
    by (cases "row ''preview''"; cases "row ''description''")
       (auto simp: parsed_Some str_cells_def row_get_def)
qed

lemma load_rows_start:
  "load_rows parse reader ([], []) =
     (case reader_error reader of
        Some e \<Rightarrow> Inl e
      | None \<Rightarrow> Inr (List.map_filter (parsed parse) (rows_of reader),
                    List.map_filter (raised parse) (rows_of reader)))"
  by (simp add: load_rows_eq split: option.splits)

section \<open>Quick wins\<close>

lemma quick_wins_loop_step:
  "quick_wins_loop (g # gs) quick_wins =
     quick_wins_loop gs (if wins g then quick_wins @ [quick_win g] else quick_wins)"
proof (cases "ux_complexity g = ''low''")
  case False
  then show ?thesis by (simp add: wins_def)
next
  case True
  show ?thesis
  proof (cases "determine_user_impact g \<in> set [''high'', ''medium'']")
    case False
    with True show ?thesis by (simp add: wins_def Let_def)
  next
    case member: True
    with True have "wins g" by (simp add: wins_def)
    with True member show ?thesis by (simp add: quick_win_def Let_def)
  qed
qed

lemma quick_wins_loop_eq:
  "quick_wins_loop gs quick_wins = quick_wins @ map quick_win (filter wins gs)"
proof (induction gs arbitrary: quick_wins)
  case Nil
  show ?case by simp
next
  case (Cons g gs)
  show ?case
    unfolding quick_wins_loop_step Cons.IH by simp
qed

lemma is_quick_win_quick_win: "g \<in> set store \<Longrightarrow> wins g \<Longrightarrow> is_quick_win store (quick_win g)"
  unfolding is_quick_win_def quick_win_def wins_def by simp

lemma map_of_dict_set: "map_of (dict_set d k v) k' = (if k' = k then Some v else map_of d k')"
  by (induction d) auto

lemma map_of_dict_append:
  "map_of (dict_append d k v) k' =
     (if k' = k then Some ((case map_of d k of None \<Rightarrow> [] | Some vs \<Rightarrow> vs) @ [v])
      else map_of d k')"
  by (induction d) auto

lemma key_dict_append:
  "(k' \<in> fst ` set (dict_append d k v)) = (k' = k \<or> k' \<in> fst ` set d)"
proof (induction d)
  case Nil
  show ?case by simp
next
  case (Cons a d)
  obtain k0 vs where a: "a = (k0, vs)"
    by (cases a)
  show ?case
  proof (cases "k0 = k")
    case True
    then show ?thesis by (simp add: a)
  next
    case False
    then show ?thesis by (simp add: a Cons) blast
  qed
qed

lemma distinct_keys_dict_append: "distinct (map fst d) \<Longrightarrow> distinct (map fst (dict_append d k v))"
proof (induction d)
  case Nil
  show ?case by simp
next
  case (Cons a d)
  obtain k0 vs where a: "a = (k0, vs)"
    by (cases a)
  from Cons show ?case
    by (cases "k0 = k") (simp_all add: a key_dict_append)
qed


lemma group_loop_props:
  "groups_ok P groups \<Longrightarrow> distinct (map fst groups) \<Longrightarrow> \<forall>r\<in>set recs. P r
     \<Longrightarrow> groups_ok P (group_loop recs groups) \<and> distinct (map fst (group_loop recs groups))"
proof (induction recs arbitrary: groups)
  case Nil
  then show ?case by simp
next
  case (Cons rec recs)
  have "groups_ok P (dict_append groups (ux_domain (r_guideline rec)) rec)"
    unfolding groups_ok_def
  proof (intro allI impI ballI)
    fix d rs r
    assume m: "map_of (dict_append groups (ux_domain (r_guideline rec)) rec) d = Some rs"
      and r: "r \<in> set rs"
    show "P r \<and> ux_domain (r_guideline r) = d"
    proof (cases "d = ux_domain (r_guideline rec)")
      case False
      with m have "map_of groups d = Some rs"
        by (simp add: map_of_dict_append)
      with Cons.prems(1) r show ?thesis
        by (simp add: groups_ok_def)
    next
      case True
      show ?thesis
      proof (cases "map_of groups d")
        case None
        with m True r Cons.prems(3) show ?thesis
          by (auto simp: map_of_dict_append)
      next
        case (Some old)
        with m True have "rs = old @ [rec]"
          by (simp add: map_of_dict_append)
        with r Some True Cons.prems(1,3) show ?thesis
          by (auto simp: groups_ok_def)
      qed
    qed
  qed
  moreover have "distinct (map fst (dict_append groups (ux_domain (r_guideline rec)) rec))"
    using Cons.prems(2) by (rule distinct_keys_dict_append)
  ultimately show ?case
    using Cons.IH Cons.prems(3) by simp
qed

lemma draw_loop_props:
  "groups_ok P groups \<Longrightarrow> distinct domains
     \<Longrightarrow> \<forall>r\<in>set result. P r \<and> ux_domain (r_guideline r) \<notin> set domains
     \<Longrightarrow> distinct (map (ux_domain \<circ> r_guideline) result)
     \<Longrightarrow> (\<forall>r\<in>set (draw_loop max_results domains groups result). P r)
         \<and> distinct (map (ux_domain \<circ> r_guideline) (draw_loop max_results domains groups result))
         \<and> length (draw_loop max_results domains groups result) \<le> max (length result) (nat max_results)"
proof (induction domains arbitrary: groups result)
  case Nil
  then show ?case by simp
next
  case (Cons domain domains)
  note IH = Cons.IH and prems = Cons.prems
  show ?case
  proof (cases "int (length result) < max_results")
    case False
    with prems show ?thesis by simp
  next
    case True
    have later: "\<forall>r\<in>set result. P r \<and> ux_domain (r_guideline r) \<notin> set domains"
      using prems(3) by simp
    have d: "distinct domains" "domain \<notin> set domains"
      using prems(2) by simp_all
    show ?thesis
    proof (cases "map_of groups domain")
      case None
      have "groups_ok P (dict_set groups domain [])"
        using prems(1) by (auto simp: groups_ok_def map_of_dict_set split: if_splits)
      from IH [OF this d(1) later prems(4)] True None show ?thesis
        by simp
    next
      case (Some recs)
      show ?thesis
      proof (cases recs)
        case Nil
        from IH [OF prems(1) d(1) later prems(4)] True Some Nil show ?thesis
          by simp
      next
        case (Cons rec rest)
        have rec: "P rec" "ux_domain (r_guideline rec) = domain"
          and rest: "\<forall>r\<in>set rest. P r \<and> ux_domain (r_guideline r) = domain"
          using prems(1) Some Cons by (auto simp: groups_ok_def)
        have g: "groups_ok P (dict_set groups domain rest)"
          using prems(1) rest by (auto simp: groups_ok_def map_of_dict_set split: if_splits)
        have r1: "\<forall>r\<in>set (result @ [rec]). P r \<and> ux_domain (r_guideline r) \<notin> set domains"
          using later rec d(2) by auto
        have r2: "distinct (map (ux_domain \<circ> r_guideline) (result @ [rec]))"
          using prems(3,4) rec(2) by (auto simp: comp_def)
        have len: "max (length (result @ [rec])) (nat max_results) = nat max_results"
          using True by simp
        have step: "draw_loop max_results (domain # domains) groups result =
            draw_loop max_results domains (dict_set groups domain rest) (result @ [rec])"
          using True Some Cons by simp
        show ?thesis
          unfolding step using IH [OF g d(1) r1 r2] len by simp
      qed
    qed
  qed
qed

lemma groups_ok_Nil: "groups_ok P []"
  by (simp add: groups_ok_def)

section \<open>The technology module\<close>

lemma compile_tech_stack_fails: "compile_tech_stack = Inl SyntaxError"
  by (simp add: compile_tech_stack_def compound_components_call_def)

lemma tech_stack_run_fails: "tech_stack_run body = Inl SyntaxError"
  by (simp add: tech_stack_run_def compile_tech_stack_fails bind_err_def)

text \<open>
  What the body of \<^verbatim>\<open>get_performance_tips\<close> would compute: the tips that pass the
  filters, in store order. The key of its sort reads the loop variable \<^verbatim>\<open>tip\<close> of the
  enclosing function, so it is the same for all elements and the stable sort moves
  nothing; for an empty store the variable is unbound, and the key is never called.
\<close>

lemma get_performance_tips_body:
  "get_performance_tips store stack impact effort =
     Inr (filter (tip_selected (lower stack) impact effort) store)"
proof (cases store)
  case Nil
  then show ?thesis
    by (simp add: get_performance_tips_def sort_by_Nil)
next
  case (Cons t ts)
  then have "tips_sort_key (Some (last store)) =
      (\<lambda>t. Inr (case map_of impact_order (lower (pt_impact (last store))) of
                   None \<Rightarrow> 3 | Some v \<Rightarrow> v))"
    by (simp add: tips_sort_key_def fun_eq_iff)
  with Cons show ?thesis
    by (simp add: get_performance_tips_def tips_loop_eq sort_by_const del: tips_loop.simps)
qed

section \<open>The claims\<close>

text \<open>
  C1. A guideline that \<^verbatim>\<open>search\<close> matches should get its priority from the rule table
  (A11y: critical, Performance: high, low complexity: high, else medium). The code
  reads \<^verbatim>\<open>UXDomain.A11y\<close>, which is no member of the enumeration (the member is
  \<^verbatim>\<open>A11Y\<close>, as \<^verbatim>\<open>_get_resources\<close> writes it), so the search raises instead: on the
  built-in guidelines the query "color" matches the topic of the accessibility
  guideline and the call ends in \<^verbatim>\<open>AttributeError\<close>.
\<close>

theorem C1_search_raises_on_match:
  "ux_search get_default_guidelines ''color'' None 5 = Inl AttributeError"
  by code_simp

text \<open>
  C2. Every engine built without its data file should hold the non-empty built-in
  records, without an error; in particular the technology engine built without
  \<^verbatim>\<open>tech_patterns.csv\<close> should hold the default patterns. The list of default patterns
  in \<^verbatim>\<open>_get_default_patterns\<close> is not valid Python (\<^verbatim>\<open>pros[...]\<close>, \<^verbatim>\<open>cons[...]\<close> for
  \<^verbatim>\<open>pros=[...]\<close>, \<^verbatim>\<open>cons=[...]\<close>), so building the engine with no data files ends in
  \<^verbatim>\<open>SyntaxError\<close>.
\<close>

theorem C2_default_tech_patterns_fail:
  "load_data \<lparr>practices_csv = None, patterns_csv = None, performance_csv = None\<rparr> =
     Inl SyntaxError"
  by (simp add: load_data_def tech_stack_run_def compile_tech_stack_def
        compound_components_call_def bind_err_def)

text \<open>
  C3. Every search should return its results sorted by non-increasing score, without
  a record of score 0. Two of the four searches return no results at all.
  \<^verbatim>\<open>UXGuideEngine.search\<close> raises as soon as a guideline matches (the misspelt
  \<^verbatim>\<open>UXDomain.A11y\<close> of C1): on the built-in guidelines the query "webp" ends in
  \<^verbatim>\<open>AttributeError\<close>. \<^verbatim>\<open>TechStackEngine.search_practices\<close> is code of the module that
  does not compile (the argument list of C2), so a call of it ends in \<^verbatim>\<open>SyntaxError\<close>.
\<close>

theorem C3_searches_that_do_not_return:
  "ux_search get_default_guidelines ''webp'' None 5 = Inl AttributeError
   \<and> tech_stack_run
        (Inr (search_practices get_default_practices ''React'' (Some ''code'') None 5)) =
       Inl SyntaxError"
proof -
  have "ux_search get_default_guidelines ''webp'' None 5 = Inl AttributeError"
    by code_simp
  then show ?thesis
    by (simp add: tech_stack_run_fails)
qed

text \<open>
  C4 as stated: every search returns at most \<^verbatim>\<open>max_results\<close> records. With a negative
  \<^verbatim>\<open>max_results\<close> the slice \<^verbatim>\<open>[:max_results]\<close> drops that many records from the end
  instead: \<^verbatim>\<open>search("", -1)\<close> on the two built-in landing patterns returns one record.
  And \<^verbatim>\<open>search_components\<close> has no cap at all: on six button snippets the query
  "button" returns all six.
\<close>

theorem C4_uncapped_results:
  "length (landing_search get_default_patterns [] (- 1)) = 1
   \<and> length (search_components six_buttons ''button'' None None) = 6"
  by code_simp

text \<open>
  C4 as amended: for \<^verbatim>\<open>max_results\<close> \<open>\<ge> 0\<close>, \<^verbatim>\<open>LandingPatternGenerator.search\<close> returns
  the first \<^verbatim>\<open>max_results\<close> records of its ranked matches (the result for a cap as
  large as the store), so at most \<^verbatim>\<open>max_results\<close> records;
  \<^verbatim>\<open>CodeGenerator.search_components\<close> takes no cap and returns every snippet that passes
  its filters with a positive score, each as often as the store holds it.
\<close>

theorem C4_result_caps:
  "(0 \<le> n \<longrightarrow>
      landing_search ps query n = take (nat n) (landing_search ps query (int (length ps)))
      \<and> length (landing_search ps query n) \<le> nat n)
   \<and> mset (search_components store query framework category) =
       mset (filter (snippet_selected (lower query) framework category) store)"
proof -
  let ?S = "sort_desc snd (landing_search_loop (lower query) ps [])"
  have "length ?S \<le> length ps"
    by (simp add: length_sort_desc landing_search_loop_eq)
  then have full: "landing_search ps query (int (length ps)) = map fst ?S"
    by (simp add: landing_search_def slice_to_def)
  have "landing_search ps query n = take (nat n) (landing_search ps query (int (length ps)))"
    if "0 \<le> n"
    using that unfolding full by (simp add: landing_search_def slice_to_def take_map)
  moreover have "mset (search_components store query framework category) =
       mset (filter (snippet_selected (lower query) framework category) store)"
  proof -
    have "mset (map fst (sort_desc snd (search_components_loop (lower query) framework category store [])))
        = mset (map fst (search_components_loop (lower query) framework category store []))"
      by (simp add: sort_desc_def)
    then show ?thesis
      by (simp add: search_components_def search_components_loop_eq comp_def)
  qed
  ultimately show ?thesis
    by (simp add: length_landing_search)
qed

theorem C4_result_caps_witness:
  "map lp_name (landing_search get_default_patterns ''e'' 1) = [''Minimal Single CTA'']
   \<and> map lp_name (landing_search get_default_patterns ''e'' 2) =
       [''Minimal Single CTA'', ''Hero + Features'']
   \<and> landing_search get_default_patterns ''e'' 1 =
       take 1 (landing_search get_default_patterns ''e'' 2)
   \<and> length (landing_search get_default_patterns ''e'' 1) \<le> 1"
proof -
  have "map lp_name (landing_search get_default_patterns ''e'' 1) = [''Minimal Single CTA'']"
    and "map lp_name (landing_search get_default_patterns ''e'' 2) =
       [''Minimal Single CTA'', ''Hero + Features'']"
    and "int (length get_default_patterns) = 2"
    by code_simp+
  then show ?thesis
    using C4_result_caps [where n = 1 and ps = get_default_patterns and query = "''e''"]
    by simp
qed

text \<open>
  C5. \<^verbatim>\<open>get_performance_tips\<close> should return the tips that pass the filters, in store
  order. It is code of the module that does not compile (the argument list of C2), so
  a call of it, here for "React" on the built-in tips, ends in \<^verbatim>\<open>SyntaxError\<close> and
  returns no tips.
\<close>

theorem C5_performance_tips_never_run:
  "tech_stack_run (get_performance_tips get_default_performance ''React'' None None) =
     Inl SyntaxError"
  by (rule tech_stack_run_fails)

text \<open>
  C6 as stated: a goal that contains a known goal word is routed to the pattern of that
  word. \<^verbatim>\<open>recommend\<close> tests \<^verbatim>\<open>goal_lower in ["signup", "register", "newsletter"]\<close>,
  membership in a list, so only a goal equal to a goal word is routed: the goal
  "signup now" contains "signup" and the store holds "Minimal Single CTA", yet the call
  falls through to the product type and returns \<^verbatim>\<open>None\<close>, neither that pattern nor a
  default.
\<close>

theorem C6_goal_containing_word:
  "str_in ''signup'' (lower ''signup now'')
   \<and> map_option lp_name (get_pattern get_default_patterns ''Minimal Single CTA'') =
       Some ''Minimal Single CTA''
   \<and> recommend get_default_patterns ''SaaS'' ''signup now'' ''B2B'' = None"
  by code_simp

text \<open>
  C6 as amended: \<^verbatim>\<open>recommend\<close> follows the fixed decision table on the lower-cased
  goal and product type, first matching row winning: goal equal to signup, register or
  newsletter: "Minimal Single CTA", else "Hero + Features"; goal equal to purchase, buy or
  order: "Product Showcase", else "Hero + Features"; goal equal to demo or trial:
  "Interactive Demo", else "Video-First"; goal containing "pricing": "Pricing Preview";
  product type equal to b2b, enterprise or saas: "Comparison Table", else "Trust Badges";
  otherwise "Hero + Features". The result is the first pattern of the store with the
  preferred name (names compared in lower case), else the first with the fallback name,
  else \<^verbatim>\<open>None\<close>. In particular \<^verbatim>\<open>recommend(goal="signup", product_type="SaaS")\<close> returns
  the pattern named "Minimal Single CTA" if the store holds one, else the one named
  "Hero + Features" (\<^verbatim>\<open>None\<close> if it holds neither).
\<close>

theorem C6_recommend_decision_table:
  "recommend ps product_type goal audience =
     first_named ps (recommend_table (lower goal) (lower product_type))
   \<and> recommend ps ''SaaS'' ''signup'' audience =
       (case find (\<lambda>p. lower (lp_name p) = ''minimal single cta'') ps of
          Some p \<Rightarrow> Some p
        | None \<Rightarrow> find (\<lambda>p. lower (lp_name p) = ''hero + features'') ps)"
proof -
  have l1: "lower ''Minimal Single CTA'' = ''minimal single cta''" by code_simp
  have l2: "lower ''Hero + Features'' = ''hero + features''" by code_simp
  have l3: "lower ''signup'' = ''signup''" by code_simp
  have a: "recommend ps product_type goal audience =
     first_named ps (recommend_table (lower goal) (lower product_type))"
    by (simp add: recommend_def recommend_table_def Let_def or_else_first_named
          get_pattern_first_named del: first_named.simps)
  have b: "recommend ps ''SaaS'' ''signup'' audience =
       (case find (\<lambda>p. lower (lp_name p) = ''minimal single cta'') ps of
          Some p \<Rightarrow> Some p
        | None \<Rightarrow> find (\<lambda>p. lower (lp_name p) = ''hero + features'') ps)"
    by (simp add: recommend_def Let_def or_else_def get_pattern_find l1 l2 l3)
  from a b show ?thesis by (rule conjI)
qed

theorem C6_recommend_decision_table_witness:
  "map_option lp_name (recommend get_default_patterns ''SaaS'' ''signup'' ''B2C'') =
     Some ''Minimal Single CTA''
   \<and> map_option lp_name (recommend [] ''SaaS'' ''signup'' ''B2C'') = None
   \<and> map_option lp_name (recommend (butlast get_default_patterns) ''SaaS'' ''Signup'' ''B2C'') =
     Some ''Hero + Features''"
proof -
  have "map_option lp_name (first_named get_default_patterns
      (recommend_table (lower ''signup'') (lower ''SaaS''))) = Some ''Minimal Single CTA''"
    by code_simp
  moreover have "map_option lp_name (first_named []
      (recommend_table (lower ''signup'') (lower ''SaaS''))) = None"
    by code_simp
  moreover have "map_option lp_name (first_named (butlast get_default_patterns)
      (recommend_table (lower ''Signup'') (lower ''SaaS''))) = Some ''Hero + Features''"
    by code_simp
  ultimately show ?thesis
    by (simp only: C6_recommend_decision_table)
qed

text \<open>
  C7. Whatever order \<^verbatim>\<open>random.shuffle\<close> gives the domains, \<^verbatim>\<open>get_quick_wins\<close> returns
  at most the requested number of recommendations (none for a cap below 1), each built
  from a guideline of the store with complexity "low" and with the derived user impact,
  which is "high" or "medium", and no two of them are of the same domain.
\<close>

theorem C7_quick_wins:
  assumes "\<And>xs. mset (shuffle xs) = mset xs"
  shows "length (get_quick_wins gs max_results shuffle) \<le> nat max_results
    \<and> (\<forall>r\<in>set (get_quick_wins gs max_results shuffle). is_quick_win gs r)
    \<and> distinct (map (ux_domain \<circ> r_guideline) (get_quick_wins gs max_results shuffle))"
proof -
  let ?qw = "quick_wins_loop gs []"
  let ?groups = "group_loop ?qw []"
  let ?domains = "shuffle (map fst ?groups)"
  have qw: "\<forall>r\<in>set ?qw. is_quick_win gs r"
    by (auto simp: quick_wins_loop_eq intro: is_quick_win_quick_win)
  have groups: "groups_ok (is_quick_win gs) ?groups" "distinct (map fst ?groups)"
    using group_loop_props [OF groups_ok_Nil _ qw] by simp_all
  have "mset ?domains = mset (map fst ?groups)"
    by (rule assms)
  then have domains: "distinct ?domains"
    using groups(2) mset_eq_imp_distinct_iff by blast
  have "(\<forall>r\<in>set (draw_loop max_results ?domains ?groups []). is_quick_win gs r)
      \<and> distinct (map (ux_domain \<circ> r_guideline) (draw_loop max_results ?domains ?groups []))
      \<and> length (draw_loop max_results ?domains ?groups []) \<le> max (length ([] :: UXRecommendation list)) (nat max_results)"
    by (rule draw_loop_props [OF groups(1) domains]) simp_all
  then show ?thesis
    by (simp add: get_quick_wins_def Let_def)
qed

theorem C7_quick_wins_witness:
  "map (ux_topic \<circ> r_guideline) (get_quick_wins four_guidelines 5 rev) = [''Breadcrumbs'', ''Labels'']
   \<and> length (get_quick_wins four_guidelines 1 rev) \<le> nat 1
   \<and> list_all (is_quick_win four_guidelines) (get_quick_wins four_guidelines 5 rev)
   \<and> distinct (map (ux_domain \<circ> r_guideline) (get_quick_wins four_guidelines 5 rev))"
proof -
  have s: "\<And>xs :: UXDomain list. mset (rev xs) = mset xs"
    by simp
  have "map (ux_topic \<circ> r_guideline) (get_quick_wins four_guidelines 5 rev) =
      [''Breadcrumbs'', ''Labels'']"
    by code_simp
  then show ?thesis
    using C7_quick_wins [of rev four_guidelines 5, OF s]
      C7_quick_wins [of rev four_guidelines 1, OF s]
    by (simp add: list_all_iff)
qed

text \<open>
  C8 as stated: a row with a missing required column is skipped, and no failure of the
  loading reaches the caller. \<^verbatim>\<open>csv.DictReader\<close> fills a line that stops early with
  \<^verbatim>\<open>None\<close>, so \<^verbatim>\<open>row["best_practice"]\<close> raises nothing: the line "Loading,Spinners"
  of a \<^verbatim>\<open>ux_guidelines.csv\<close> is stored, as a guideline whose other fields are \<^verbatim>\<open>None\<close>,
  and no warning is printed. And \<^verbatim>\<open>for row in reader\<close> stands outside the \<^verbatim>\<open>try\<close>: when
  the reader raises on the third line, \<^verbatim>\<open>_load_guidelines\<close> raises.
\<close>

theorem C8_short_row_is_stored:
  "load_guidelines (Some [Inr (dict_row guideline_columns [''Loading'', ''Spinners''])]) =
     Inr ([With_None], [])
   \<and> load_guidelines (Some broken_reader) = Inl UnicodeDecodeError"
  by code_simp

text \<open>
  C8 as amended, for the loaders of \<^verbatim>\<open>ux_guide.py\<close>, \<^verbatim>\<open>landing.py\<close> and \<^verbatim>\<open>codegen.py\<close>:
  loading raises exactly when the reader of the file raises, and then what the reader
  raised. Otherwise the store holds, in the order of the file, what the rows that parse
  give, and one warning is printed for every other row. A row parses exactly when the
  header has the columns read with \<^verbatim>\<open>row[...]\<close>, the row has a cell that is a member
  value under every enum column, and it has a cell under every column whose string is
  split or lower-cased. A row that parses and lacks a cell under one of the other
  columns is stored with \<^verbatim>\<open>None\<close> in that field.
\<close>

theorem C8_rows_loaded:
  "load_guidelines (Some reader) =
     (case reader_error reader of
        Some e \<Rightarrow> Inl e
      | None \<Rightarrow> Inr (List.map_filter (parsed parse_guideline) (rows_of reader),
                    List.map_filter (raised parse_guideline) (rows_of reader)))
   \<and> (parsed parse_guideline row = None) = (\<not> guideline_row_ok row)
   \<and> (parsed parse_guideline row = Some With_None) =
       (guideline_row_ok row
        \<and> \<not> str_cells row
              [''topic'', ''best_practice'', ''anti_pattern'', ''example'', ''impact'',
               ''complexity''])
   \<and> load_patterns (Some reader) =
       (case reader_error reader of
          Some e \<Rightarrow> Inl e
        | None \<Rightarrow> Inr (List.map_filter (parsed parse_pattern) (rows_of reader),
                      List.map_filter (raised parse_pattern) (rows_of reader)))
   \<and> (parsed parse_pattern row = None) = (\<not> pattern_row_ok row)
   \<and> (parsed parse_pattern row = Some With_None) =
       (pattern_row_ok row \<and> \<not> str_cells row [''name'', ''description'', ''complexity''])
   \<and> load_snippets (Some reader) =
       (case reader_error reader of
          Some e \<Rightarrow> Inl e
        | None \<Rightarrow> Inr (List.map_filter (parsed parse_snippet) (rows_of reader),
                      List.map_filter (raised parse_snippet) (rows_of reader)))
   \<and> (parsed parse_snippet row = None) = (\<not> snippet_row_ok row)
   \<and> (parsed parse_snippet row = Some With_None) =
       (snippet_row_ok row
        \<and> \<not> str_cells row [''name'', ''code'', ''preview'', ''description''])"
  by (simp only: load_guidelines_def load_patterns_def load_snippets_def option.case
        load_rows_start parsed_guideline_None parsed_guideline_With_None parsed_pattern_None
        parsed_pattern_With_None parsed_snippet_None parsed_snippet_With_None simp_thms)

theorem C8_rows_loaded_witness:
  "load_guidelines (Some guideline_reader) =
     Inr ([Typed \<lparr>ux_domain = FORMS, ux_topic = ''Labels'',
                  ux_best_practice = ''Label every input'',
                  ux_anti_pattern = ''Placeholder as label'',
                  ux_example = ''Email label above the field'',
                  ux_impact = ''Better for all users'', ux_complexity = ''low''\<rparr>,
           With_None,
           Typed \<lparr>ux_domain = NAVIGATION, ux_topic = ''Breadcrumbs'',
                  ux_best_practice = ''Show the path'', ux_anti_pattern = ''Deep menus only'',
                  ux_example = ''Home > Docs > API'', ux_impact = ''Better orientation'',
                  ux_complexity = ''low''\<rparr>],
          [ValueError])
   \<and> parsed parse_guideline (dict_row guideline_columns [''Loading'', ''Spinners'']) =
       Some With_None
   \<and> parsed parse_guideline (dict_row guideline_columns (guideline_lines ! 1)) = None"
proof -
  let ?short = "dict_row guideline_columns [''Loading'', ''Spinners'']"
  have "reader_error guideline_reader = None"
    and "List.map_filter (parsed parse_guideline) (rows_of guideline_reader) =
       [Typed \<lparr>ux_domain = FORMS, ux_topic = ''Labels'',
                  ux_best_practice = ''Label every input'',
                  ux_anti_pattern = ''Placeholder as label'',
                  ux_example = ''Email label above the field'',
                  ux_impact = ''Better for all users'', ux_complexity = ''low''\<rparr>,
           With_None,
           Typed \<lparr>ux_domain = NAVIGATION, ux_topic = ''Breadcrumbs'',
                  ux_best_practice = ''Show the path'', ux_anti_pattern = ''Deep menus only'',
                  ux_example = ''Home > Docs > API'', ux_impact = ''Better orientation'',
                  ux_complexity = ''low''\<rparr>]"
    and "List.map_filter (raised parse_guideline) (rows_of guideline_reader) = [ValueError]"
    and "guideline_row_ok ?short"
    and "\<not> str_cells ?short
              [''topic'', ''best_practice'', ''anti_pattern'', ''example'', ''impact'',
               ''complexity'']"
    and "\<not> guideline_row_ok (dict_row guideline_columns (guideline_lines ! 1))"
    by code_simp+
  then show ?thesis
    using C8_rows_loaded [where reader = guideline_reader and row = ?short]
      C8_rows_loaded [where reader = guideline_reader
        and row = "dict_row guideline_columns (guideline_lines ! 1)"]
    by simp
qed

text \<open>
  C9. Among records of equal score the results keep the order of the store: for every
  score \<open>k\<close>, the records of score \<open>k\<close> in the result of
  \<^verbatim>\<open>LandingPatternGenerator.search\<close> are an initial part of the records of score \<open>k\<close>
  in the store (the whole of it unless the cap cut it), and those in the result of
  \<^verbatim>\<open>CodeGenerator.search_components\<close> are exactly the selected snippets of score \<open>k\<close>
  in store order. \<^verbatim>\<open>search_practices\<close>, which does not sort, returns an initial part of
  the selected practices in store order.
\<close>

theorem C9_equal_scores_keep_store_order:
  "prefix (filter (\<lambda>p. pattern_score (lower query) p = k) (landing_search ps query n))
          (filter (\<lambda>p. pattern_score (lower query) p = k) ps)
   \<and> filter (\<lambda>s. snippet_score (lower query) s = k)
        (search_components store query framework category) =
      filter (\<lambda>s. snippet_score (lower query) s = k)
        (filter (snippet_selected (lower query) framework category) store)
   \<and> prefix (map sr_practice (search_practices bps stack q cat n))
        (filter (practice_selected (lower stack) q cat) bps)"
  by (simp add: landing_search_stable search_components_stable search_practices_eq
        slice_to_prefix)

theorem C9_equal_scores_keep_store_order_witness:
  "filter (\<lambda>s. snippet_score ''button'' s = 18)
     (search_components six_buttons ''button'' None None) = six_buttons"
proof -
  have l: "lower ''button'' = ''button''"
    by code_simp
  have "filter (\<lambda>s. snippet_score ''button'' s = 18)
      (filter (snippet_selected ''button'' None None) six_buttons) = six_buttons"
    by code_simp
  then show ?thesis
    using C9_equal_scores_keep_store_order
      [where query = "''button''" and store = six_buttons and k = 18 and framework = None
         and category = None]
    by (simp add: l)
qed

text \<open>
  C10. No query operation changes the store of its engine: after \<^verbatim>\<open>search\<close>,
  \<^verbatim>\<open>recommend\<close>, \<^verbatim>\<open>generate_structure\<close>, \<^verbatim>\<open>get_quick_wins\<close>, \<^verbatim>\<open>get_checklist\<close>,
  \<^verbatim>\<open>search_practices\<close>, \<^verbatim>\<open>get_performance_tips\<close> and \<^verbatim>\<open>search_components\<close> the engine
  is the one the call started from, also when the call raises.
\<close>

theorem C10_store_unchanged:
  "snd (LandingPatternGenerator_search landing query max_results) = landing
   \<and> snd (LandingPatternGenerator_recommend landing product_type goal audience) = landing
   \<and> snd (LandingPatternGenerator_generate_structure landing pattern) = landing
   \<and> snd (UXGuideEngine_search ux query domain max_results) = ux
   \<and> snd (UXGuideEngine_get_quick_wins ux max_results shuffle) = ux
   \<and> snd (UXGuideEngine_get_checklist ux domains) = ux
   \<and> snd (TechStackEngine_search_practices tech stack q category max_results) = tech
   \<and> snd (TechStackEngine_get_performance_tips tech stack impact effort) = tech
   \<and> snd (CodeGenerator_search_components codegen query framework category) = codegen"
  by (simp add: LandingPatternGenerator_search_def LandingPatternGenerator_recommend_def
        LandingPatternGenerator_generate_structure_def UXGuideEngine_search_def
        UXGuideEngine_get_quick_wins_def UXGuideEngine_get_checklist_def
        TechStackEngine_search_practices_def TechStackEngine_get_performance_tips_def
        CodeGenerator_search_components_def)

end
